theory Spec2Isabelle
  imports Main "HOL-Library.AList" "HOL-Library.Sublist"
begin

section \<open>The Go standard library functions that runner.go calls\<close>

text \<open>
  Go strings are byte sequences, and so is \<^typ>\<open>string\<close>. The functions of this section
  are the Unix versions of \<^verbatim>\<open>strings.HasPrefix\<close>, \<^verbatim>\<open>strings.Split\<close> (called with the
  one-byte separator \<^verbatim>\<open>":"\<close>), \<^verbatim>\<open>strings.Join\<close> (called with the separator \<^verbatim>\<open>"/"\<close>),
  \<^verbatim>\<open>filepath.Clean\<close>, \<^verbatim>\<open>filepath.Join\<close>, \<^verbatim>\<open>filepath.IsAbs\<close> and \<^verbatim>\<open>filepath.Abs\<close>.
\<close>

definition strings_HasPrefix :: "string \<Rightarrow> string \<Rightarrow> bool" where
  \<comment> \<open>\<^verbatim>\<open>len(s) >= len(prefix) && s[0:len(prefix)] == prefix\<close>\<close>
  "strings_HasPrefix s pre \<longleftrightarrow> length pre \<le> length s \<and> take (length pre) s = pre"

text \<open>
  \<^verbatim>\<open>strings.Split(s, sep)\<close> with a one-byte separator: while the separator occurs in the
  rest of the string, cut the token before its first occurrence and go on behind it; the
  rest is the last token. The result has one token more than \<^verbatim>\<open>s\<close> has separators, so at
  least one.
\<close>

function strings_Split :: "string \<Rightarrow> char \<Rightarrow> string list" where
  "strings_Split s sep =
     (case dropWhile (\<lambda>c. c \<noteq> sep) s of
        [] \<Rightarrow> [s]
      | _ # rest \<Rightarrow> takeWhile (\<lambda>c. c \<noteq> sep) s # strings_Split rest sep)"
  by pat_completeness auto
termination
proof (relation "measure (\<lambda>(s, sep). length s)")
  show "wf (measure (\<lambda>(s, sep). length s))" by simp
next
  fix s :: string and sep x21 and x22 :: string
  assume "dropWhile (\<lambda>c. c \<noteq> sep) s = x21 # x22"
  then have "length (dropWhile (\<lambda>c. c \<noteq> sep) s) = Suc (length x22)" by simp
  moreover have "length (dropWhile (\<lambda>c. c \<noteq> sep) s) \<le> length s"
    by (rule length_dropWhile_le)
  ultimately show "((x22, sep), (s, sep)) \<in> measure (\<lambda>(s, sep). length s)" by simp
qed

declare strings_Split.simps [simp del]

fun strings_Join :: "string list \<Rightarrow> string \<Rightarrow> string" where
  "strings_Join [] sep = []"
| "strings_Join [e] sep = e"
| "strings_Join (e # es) sep = e @ sep @ strings_Join es sep"

text \<open>
  \<^verbatim>\<open>filepath.Clean\<close> writes the cleaned path into a buffer \<^verbatim>\<open>out\<close> while it reads the path
  from the left; \<^verbatim>\<open>dotdot\<close> is the buffer index that a \<^verbatim>\<open>..\<close> element must not go behind.
  \<open>backtrack\<close> is the inner loop of the \<^verbatim>\<open>..\<close> case,
  \<^verbatim>\<open>for out.w > dotdot && !os.IsPathSeparator(out.index(out.w)) { out.w-- }\<close>,
  on the write index \<^verbatim>\<open>w\<close>.
\<close>

fun backtrack :: "string \<Rightarrow> nat \<Rightarrow> nat \<Rightarrow> nat" where
  "backtrack out dotdot w =
     (if w > dotdot \<and> out ! w \<noteq> CHR ''/'' then backtrack out dotdot (w - 1) else w)"

declare backtrack.simps [simp del]

function Clean_loop :: "bool \<Rightarrow> string \<Rightarrow> string \<Rightarrow> nat \<Rightarrow> string" where
  "Clean_loop rooted [] out dotdot = out"
| "Clean_loop rooted (c # p) out dotdot =
     (if c = CHR ''/'' then
        \<comment> \<open>empty path element\<close>
        Clean_loop rooted p out dotdot
      else if c = CHR ''.'' \<and> (p = [] \<or> hd p = CHR ''/'') then
        \<comment> \<open>. element\<close>
        Clean_loop rooted p out dotdot
      else if c = CHR ''.'' \<and> take 1 p = ''.'' \<and> (drop 1 p = [] \<or> hd (drop 1 p) = CHR ''/'') then
        \<comment> \<open>.. element: remove to last separator\<close>
        (if length out > dotdot then
           Clean_loop rooted (drop 1 p) (take (backtrack out dotdot (length out - 1)) out) dotdot
         else if \<not> rooted then
           (let out' = (if length out > 0 then out @ ''/'' else out) @ ''..''
            in Clean_loop rooted (drop 1 p) out' (length out'))
         else Clean_loop rooted (drop 1 p) out dotdot)
      else
        \<comment> \<open>real path element: add slash if needed, copy element\<close>
        (let out' = (if rooted \<and> length out \<noteq> 1 \<or> \<not> rooted \<and> length out \<noteq> 0
                     then out @ ''/'' else out)
         in Clean_loop rooted (dropWhile (\<lambda>x. x \<noteq> CHR ''/'') p)
              (out' @ c # takeWhile (\<lambda>x. x \<noteq> CHR ''/'') p) dotdot))"
  by pat_completeness auto
termination
proof (relation "measure (\<lambda>(rooted, p, out, dotdot). length p)")
  show "wf (measure (\<lambda>(rooted, p, out, dotdot). length p))" by simp
next
  fix rooted :: bool and c :: char and p out :: string and dotdot :: nat and x
  have "length (dropWhile (\<lambda>x. x \<noteq> CHR ''/'') p) \<le> length p"
    by (rule length_dropWhile_le)
  then show "((rooted, dropWhile (\<lambda>x. x \<noteq> CHR ''/'') p, x @ c # takeWhile (\<lambda>x. x \<noteq> CHR ''/'') p, dotdot),
              rooted, c # p, out, dotdot) \<in> measure (\<lambda>(rooted, p, out, dotdot). length p)"
    by simp
qed simp_all

declare Clean_loop.simps [simp del]

definition filepath_Clean :: "string \<Rightarrow> string" where
  "filepath_Clean path =
     (if path = [] then ''.''
      else
        let rooted = (hd path = CHR ''/'');
            out = (if rooted then Clean_loop rooted (tl path) ''/'' 1
                   else Clean_loop rooted path [] 0)
        in if out = [] then ''.'' else out)"

text \<open>
  \<^verbatim>\<open>filepath.Join(elem...)\<close>: the elements from the first non-empty one on, joined with
  \<^verbatim>\<open>"/"\<close> and cleaned; the empty string when every element is empty.
\<close>

fun filepath_Join :: "string list \<Rightarrow> string" where
  "filepath_Join [] = []"
| "filepath_Join (e # es) =
     (if e \<noteq> [] then filepath_Clean (strings_Join (e # es) ''/'') else filepath_Join es)"

declare filepath_Join.simps [simp del]

definition filepath_IsAbs :: "string \<Rightarrow> bool" where
  "filepath_IsAbs path \<longleftrightarrow> strings_HasPrefix path ''/''"

section \<open>Errors, panics and results\<close>

text \<open>
  An error value is either one that a collaborator returned (the engine, the operating
  system, the code-server loader), kept opaque, or one that runner.go builds with
  \<^verbatim>\<open>xerrors.Errorf\<close>; there is one constructor for each format string of the file, with
  the formatted arguments and, for \<^verbatim>\<open>%w\<close>, the wrapped error:
  \<^item> \<open>FailedToAssembleMounts e\<close>: \<^verbatim>\<open>"failed to assemble mounts: %w"\<close>
  \<^item> \<open>FailedToAddImageDefinedLabels e\<close>: \<^verbatim>\<open>"failed to add image defined labels: %w"\<close>
  \<^item> \<open>FailedToCreateContainer e\<close>: \<^verbatim>\<open>"failed to create container: %w"\<close>
  \<^item> \<open>FailedToStartContainer e\<close>: \<^verbatim>\<open>"failed to start container: %w"\<close>
  \<^item> \<open>FailedToLoadCodeServer e\<close>: \<^verbatim>\<open>"failed to load code-server: %w"\<close>
  \<^item> \<open>FailedToInspect x e\<close>: \<^verbatim>\<open>"failed to inspect %v: %w"\<close>, with the image or container name
  \<^item> \<open>FailedToInspectImage e\<close>: \<^verbatim>\<open>"failed to inspect image: %w"\<close>
  \<^item> \<open>InvalidShare v\<close>: \<^verbatim>\<open>"invalid share %q"\<close>, with the label value
  \<^item> \<open>FailedToGetContainerIP name e\<close>: \<^verbatim>\<open>"failed to get container %s IP: %w"\<close>
\<close>

datatype error =
    External string
  | FailedToAssembleMounts error
  | FailedToAddImageDefinedLabels error
  | FailedToCreateContainer error
  | FailedToStartContainer error
  | FailedToLoadCodeServer error
  | FailedToInspect string error
  | FailedToInspectImage error
  | InvalidShare string
  | FailedToGetContainerIP string error

text \<open>
  A panic is not a return. runner.go panics in \<^verbatim>\<open>resolveMounts\<close>, with the error of
  \<^verbatim>\<open>os.UserHomeDir\<close> (\<open>PanicError\<close>) or with the message
  \<^verbatim>\<open>"failed to resolve %v: %v"\<close> (\<open>PanicFailedToResolve\<close>), and the Go runtime panics
  where the code reads a field through a nil pointer (\<open>NilPointerDereference\<close>).
\<close>

datatype panic =
    PanicError error
  | PanicFailedToResolve string error
  | NilPointerDereference

datatype 'a outcome = Returns 'a | Panics panic

section \<open>Data\<close>

text \<open>
  A Go \<^verbatim>\<open>map[string]string\<close> is the list of its entries in the order in which a
  \<^verbatim>\<open>range\<close> statement visits them; the order is the runtime's choice, and the keys of a
  map are distinct. \<^verbatim>\<open>m[k]\<close> with its \<^verbatim>\<open>ok\<close> flag is \<^term>\<open>map_of m k\<close>, and
  \<^verbatim>\<open>m[k] = v\<close> is \<^term>\<open>AList.update k v m\<close>. Of the two loops over the labels of an
  image, only the one of \<^verbatim>\<open>imageDefinedMounts\<close> depends on the order: the map that
  \<^verbatim>\<open>addImageDefinedLabels\<close> builds is the same for every order of distinct keys.
\<close>

type_synonym labels = "(string \<times> string) list"

text \<open>\<^verbatim>\<open>m[k]\<close> read as a value: the empty string when the key is absent.\<close>

definition index_label :: "labels \<Rightarrow> string \<Rightarrow> string" where
  "index_label m k = (case map_of m k of None \<Rightarrow> [] | Some v \<Rightarrow> v)"

record mount =
  Type :: string
  Source :: string
  Target :: string

definition TypeBind :: string where
  "TypeBind = ''bind''"

record runner =
  cntName :: string
  projectName :: string
  hostname :: string
  projectLocalDir :: string
  hostUser :: string
  network :: string
  ip :: string
  testCmd :: string

text \<open>The fields of \<^verbatim>\<open>container.Config\<close> that runner.go reads or writes.\<close>

record container_Config =
  Hostname :: string
  Cmd :: "string list"
  Image :: string
  Labels :: labels
  User :: string

record container_HostConfig =
  Mounts :: "mount list"
  Privileged :: bool

record network_EndpointSettings =
  NetworkID :: string
  IPAddress :: string

record network_NetworkingConfig =
  EndpointsConfig :: "(string \<times> network_EndpointSettings) list"

text \<open>
  \<^verbatim>\<open>types.ImageInspect\<close> and \<^verbatim>\<open>types.ContainerJSON\<close> hold their configurations behind
  pointers: \<open>None\<close> is the nil pointer.
\<close>

record types_ImageInspect =
  ContainerConfig :: "container_Config option"
  Config :: "container_Config option"

record types_ContainerJSON =
  JSON_Config :: "container_Config option"

section \<open>The environment of runner.go\<close>

text \<open>
  runner.go uses constants and functions of the same package that other files declare
  (\<^verbatim>\<open>sailLabel\<close>, \<^verbatim>\<open>guestHomeDir\<close>, \<^verbatim>\<open>containerLogPath\<close>, \<^verbatim>\<open>metaRoot\<close>,
  \<^verbatim>\<open>resolvePath\<close>, \<^verbatim>\<open>loadCodeServer\<close>, \<^verbatim>\<open>dockutil.ContainerIP\<close>), the operating system
  (\<^verbatim>\<open>os.MkdirAll\<close>, \<^verbatim>\<open>os.UserHomeDir\<close>, and \<^verbatim>\<open>os.Getwd\<close> inside \<^verbatim>\<open>filepath.Abs\<close>) and the
  Docker client. All of them are parameters of the model, collected in one record. A call
  that can fail answers with the error (\<open>Inl\<close>) or with its value (\<open>Inr\<close>); a call that
  returns only an error answers \<open>Some\<close> error or \<open>None\<close>. An answer is a function of the
  request: the image, the container and the host do not change while one function of
  runner.go runs, so that the inspections of one image within one \<^verbatim>\<open>runContainer\<close> agree.
\<close>

record env =
  sailLabel :: string
  guestHomeDir :: string
  containerLogPath :: string
  metaRoot :: string
  resolvePath :: "string \<Rightarrow> string \<Rightarrow> string"
  loadCodeServer :: "error + string"
  dockutil_ContainerIP :: "string \<Rightarrow> error + string"
  os_MkdirAll :: "string \<Rightarrow> nat \<Rightarrow> error option"
  os_UserHomeDir :: "error + string"
  os_Getwd :: "error + string"
  cli_ImageInspectWithRaw :: "string \<Rightarrow> error + types_ImageInspect"
  cli_ContainerCreate ::
    "container_Config \<Rightarrow> container_HostConfig \<Rightarrow> network_NetworkingConfig \<Rightarrow> string \<Rightarrow> error option"
  cli_ContainerStart :: "string \<Rightarrow> error option"
  cli_ContainerInspect :: "string \<Rightarrow> error + types_ContainerJSON"

text \<open>
  The calls that change or query something outside the process are recorded, in the order
  in which they are issued: every function below returns the list of the calls it made
  together with its outcome. Closing the client (\<^verbatim>\<open>defer cli.Close()\<close>) sends nothing to
  the engine and is not recorded; the deadline of \<^verbatim>\<open>runContainer\<close>'s context shows only
  as an error that an engine call returns.
\<close>

datatype call =
    ImageInspectWithRaw string
  | ContainerCreate container_Config container_HostConfig network_NetworkingConfig string
  | ContainerStart string
  | ContainerInspect string
  | ContainerIP string
  | MkdirAll string nat
  | LoadCodeServer

text \<open>Docker labels for sail state.\<close>

definition baseImageLabel :: "env \<Rightarrow> string" where
  "baseImageLabel env = sailLabel env @ ''.base_image''"

definition hatLabel :: "env \<Rightarrow> string" where
  "hatLabel env = sailLabel env @ ''.hat''"

definition projectLocalDirLabel :: "env \<Rightarrow> string" where
  "projectLocalDirLabel env = sailLabel env @ ''.project_local_dir''"

definition projectDirLabel :: "env \<Rightarrow> string" where
  "projectDirLabel env = sailLabel env @ ''.project_dir''"

definition projectNameLabel :: "env \<Rightarrow> string" where
  "projectNameLabel env = sailLabel env @ ''.project_name''"

text \<open>
  \<^verbatim>\<open>filepath.Abs\<close> on Unix: an absolute path is cleaned; a relative one is joined to the
  working directory, and when that cannot be read the result is the empty string and
  the error.
\<close>

definition filepath_Abs :: "env \<Rightarrow> string \<Rightarrow> string \<times> error option" where
  "filepath_Abs env path =
     (if filepath_IsAbs path then (filepath_Clean path, None)
      else case os_Getwd env of
             Inl err \<Rightarrow> ([], Some err)
           | Inr wd \<Rightarrow> (filepath_Join [wd, path], None))"

section \<open>projectDir\<close>

text \<open>
  A function of runner.go that returns \<^verbatim>\<open>(T, error)\<close> returns the pair here too, with the
  zero value of \<^verbatim>\<open>T\<close> (the empty string, the nil slice \<open>[]\<close>, the nil pointer \<open>None\<close>)
  where the source returns it beside an error.
\<close>

definition projectDir :: "env \<Rightarrow> runner \<Rightarrow> string \<Rightarrow> call list \<times> (string \<times> error option) outcome" where
  "projectDir env r image' =
     ([ImageInspectWithRaw image'],
      case cli_ImageInspectWithRaw env image' of
        Inl err \<Rightarrow> Returns ([], Some (FailedToInspectImage err))
      | Inr img \<Rightarrow>
          (case Config img of
             None \<Rightarrow> Panics NilPointerDereference
           | Some cfg \<Rightarrow>
               (case map_of (Labels cfg) ''project_root'' of
                  Some proot \<Rightarrow> Returns (filepath_Join [proot, projectName r], None)
                | None \<Rightarrow> Returns (filepath_Join [guestHomeDir env, projectName r], None))))"

section \<open>imageDefinedMounts\<close>

text \<open>
  The loop over the labels of the image's container configuration; the label list is
  in the order of the iteration. The method does not read its receiver.
\<close>

fun imageDefinedMounts_loop :: "labels \<Rightarrow> mount list \<Rightarrow> mount list \<times> error option" where
  "imageDefinedMounts_loop [] mounts = (mounts, None)"
| "imageDefinedMounts_loop ((k, v) # ls) mounts =
     (if \<not> strings_HasPrefix k ''share.'' then imageDefinedMounts_loop ls mounts
      else
        let tokens = strings_Split v CHR '':''
        in if length tokens \<noteq> 2 then ([], Some (InvalidShare v))
           else imageDefinedMounts_loop ls
                  (mounts @ [\<lparr>Type = TypeBind, Source = tokens ! 0, Target = tokens ! 1\<rparr>]))"

definition imageDefinedMounts ::
  "env \<Rightarrow> string \<Rightarrow> mount list \<Rightarrow> call list \<times> (mount list \<times> error option) outcome" where
  "imageDefinedMounts env image' mounts =
     ([ImageInspectWithRaw image'],
      case cli_ImageInspectWithRaw env image' of
        Inl err \<Rightarrow> Returns ([], Some (FailedToInspect image' err))
      | Inr ins \<Rightarrow>
          (case ContainerConfig ins of
             None \<Rightarrow> Panics NilPointerDereference
           | Some cc \<Rightarrow> Returns (imageDefinedMounts_loop (Labels cc) mounts)))"

section \<open>addImageDefinedLabels\<close>

text \<open>
  The method writes into the map it is given; the model returns the map as it is when
  the method ends, beside the error. The method does not read its receiver.
\<close>

fun addImageDefinedLabels_loop :: "env \<Rightarrow> labels \<Rightarrow> labels \<Rightarrow> labels" where
  "addImageDefinedLabels_loop env [] labels = labels"
| "addImageDefinedLabels_loop env ((k, v) # ls) labels =
     (if \<not> strings_HasPrefix k (sailLabel env) then addImageDefinedLabels_loop env ls labels
      else addImageDefinedLabels_loop env ls (AList.update k v labels))"

definition addImageDefinedLabels ::
  "env \<Rightarrow> string \<Rightarrow> labels \<Rightarrow> call list \<times> (labels \<times> error option) outcome" where
  "addImageDefinedLabels env image' labels =
     ([ImageInspectWithRaw image'],
      case cli_ImageInspectWithRaw env image' of
        Inl err \<Rightarrow> Returns (labels, Some (FailedToInspect image' err))
      | Inr ins \<Rightarrow>
          (case ContainerConfig ins of
             None \<Rightarrow> Panics NilPointerDereference
           | Some cc \<Rightarrow> Returns (addImageDefinedLabels_loop env (Labels cc) labels, None)))"

section \<open>stripDuplicateMounts\<close>

text \<open>
  The loop of \<^verbatim>\<open>stripDuplicateMounts\<close> over the mounts that are left, with the result
  list \<^verbatim>\<open>rmounts\<close> and the set \<^verbatim>\<open>dests\<close> of the targets seen. The method does not read
  its receiver.
\<close>

fun stripDuplicateMounts_loop :: "mount list \<Rightarrow> mount list \<Rightarrow> string set \<Rightarrow> mount list" where
  "stripDuplicateMounts_loop [] rmounts dests = rmounts"
| "stripDuplicateMounts_loop (mnt # mounts) rmounts dests =
     (if Target mnt \<in> dests then stripDuplicateMounts_loop mounts rmounts dests
      else stripDuplicateMounts_loop mounts (rmounts @ [mnt]) (insert (Target mnt) dests))"

definition stripDuplicateMounts :: "mount list \<Rightarrow> mount list" where
  "stripDuplicateMounts mounts = stripDuplicateMounts_loop mounts [] {}"

section \<open>resolveMounts\<close>

text \<open>
  \<^verbatim>\<open>resolveMounts\<close> overwrites the source and the target of every element of the slice
  in place, from the first to the last, and panics at the first source that
  \<^verbatim>\<open>filepath.Abs\<close> cannot resolve; the model returns the elements as they are when the
  method ends. By the time \<^verbatim>\<open>panicf\<close> formats \<^verbatim>\<open>mounts[i].Source\<close>, the assignment has
  stored there what \<^verbatim>\<open>filepath.Abs\<close> returned beside its error. The method does not read
  its receiver.
\<close>

fun resolveMounts_loop :: "env \<Rightarrow> string \<Rightarrow> mount list \<Rightarrow> mount list outcome" where
  "resolveMounts_loop env hostHomeDir [] = Returns []"
| "resolveMounts_loop env hostHomeDir (m # mounts) =
     (case filepath_Abs env (resolvePath env hostHomeDir (Source m)) of
        (src, Some err) \<Rightarrow> Panics (PanicFailedToResolve src err)
      | (src, None) \<Rightarrow>
          (case resolveMounts_loop env hostHomeDir mounts of
             Panics p \<Rightarrow> Panics p
           | Returns mounts' \<Rightarrow>
               Returns (m\<lparr>Source := src, Target := resolvePath env (guestHomeDir env) (Target m)\<rparr>
                        # mounts')))"

definition resolveMounts :: "env \<Rightarrow> mount list \<Rightarrow> mount list outcome" where
  "resolveMounts env mounts =
     (case os_UserHomeDir env of
        Inl err \<Rightarrow> Panics (PanicError err)
      | Inr hostHomeDir \<Rightarrow> resolveMounts_loop env hostHomeDir mounts)"

section \<open>mounts\<close>

definition mounts ::
  "env \<Rightarrow> runner \<Rightarrow> mount list \<Rightarrow> string \<Rightarrow> call list \<times> (mount list \<times> error option) outcome" where
  "mounts env r mounts0 image' =
     (let mounts1 = mounts0 @ [\<lparr>Type = ''bind'', Source = ''~/.config/Code'', Target = ''~/.config/Code''\<rparr>];
          mounts2 = mounts1 @ [\<lparr>Type = ''bind'', Source = ''~/.vscode/extensions'',
                                Target = ''~/.vscode/extensions''\<rparr>];
          localGlobalStorageDir = filepath_Join [metaRoot env, cntName r, ''globalStorage'']
      in case os_MkdirAll env localGlobalStorageDir 488 of
           Some err \<Rightarrow> ([MkdirAll localGlobalStorageDir 488], Returns ([], Some err))
         | None \<Rightarrow>
             (let mounts3 = mounts2 @ [\<lparr>Type = ''bind'', Source = localGlobalStorageDir,
                                       Target = ''~/.local/share/code-server/globalStorage/''\<rparr>]
              in case projectDir env r image' of
                   (c1, Panics p) \<Rightarrow> (MkdirAll localGlobalStorageDir 488 # c1, Panics p)
                 | (c1, Returns (pdir, Some err)) \<Rightarrow>
                     (MkdirAll localGlobalStorageDir 488 # c1, Returns ([], Some err))
                 | (c1, Returns (pdir, None)) \<Rightarrow>
                     (let mounts4 = mounts3 @ [\<lparr>Type = ''bind'', Source = projectLocalDir r,
                                               Target = pdir\<rparr>]
                      in case loadCodeServer env of
                           Inl err \<Rightarrow>
                             (MkdirAll localGlobalStorageDir 488 # c1 @ [LoadCodeServer],
                              Returns ([], Some (FailedToLoadCodeServer err)))
                         | Inr codeServerBinPath \<Rightarrow>
                             (let mounts5 = mounts4 @ [\<lparr>Type = TypeBind, Source = codeServerBinPath,
                                                       Target = ''/usr/bin/code-server''\<rparr>]
                              in case imageDefinedMounts env image' mounts5 of
                                   (c2, Panics p) \<Rightarrow>
                                     (MkdirAll localGlobalStorageDir 488 # c1 @ [LoadCodeServer] @ c2,
                                      Panics p)
                                 | (c2, Returns (mounts6, Some err)) \<Rightarrow>
                                     (MkdirAll localGlobalStorageDir 488 # c1 @ [LoadCodeServer] @ c2,
                                      Returns ([], Some err))
                                 | (c2, Returns (mounts6, None)) \<Rightarrow>
                                     (MkdirAll localGlobalStorageDir 488 # c1 @ [LoadCodeServer] @ c2,
                                      case resolveMounts env mounts6 of
                                        Panics p \<Rightarrow> Panics p
                                      | Returns mounts7 \<Rightarrow> Returns (mounts7, None))))))"

text \<open>The mode \<^verbatim>\<open>0750\<close> of the directory is octal: 488.\<close>

section \<open>runContainer\<close>

definition runContainer :: "env \<Rightarrow> runner \<Rightarrow> string \<Rightarrow> call list \<times> error option outcome" where
  "runContainer env r image' =
     (case mounts env r [] image' of
        (c1, Panics p) \<Rightarrow> (c1, Panics p)
      | (c1, Returns (mnts, Some err)) \<Rightarrow> (c1, Returns (Some (FailedToAssembleMounts err)))
      | (c1, Returns (mnts, None)) \<Rightarrow>
          (case projectDir env r image' of
             (c2, Panics p) \<Rightarrow> (c1 @ c2, Panics p)
           | (c2, Returns (pdir, Some err)) \<Rightarrow> (c1 @ c2, Returns (Some err))
           | (c2, Returns (pdir, None)) \<Rightarrow>
               (let cmd0 = ''cd '' @ pdir
                      @ ''; code-server --data-dir ~/.config/Code --extensions-dir ~/.vscode/extensions --allow-http --no-auth 2>&1 | tee ''
                      @ containerLogPath env;
                    cmd = (if testCmd r \<noteq> [] then testCmd r @ ''; exit 1'' else cmd0);
                    containerConfig =
                      \<lparr>Hostname = hostname r,
                       Cmd = [''bash'', ''-c'', cmd],
                       Image = image',
                       Labels = [(sailLabel env, []),
                                 (projectDirLabel env, pdir),
                                 (projectLocalDirLabel env, projectLocalDir r),
                                 (projectNameLabel env, projectName r)],
                       User = hostUser r @ '':user''\<rparr>
                in case addImageDefinedLabels env image' (Labels containerConfig) of
                     (c3, Panics p) \<Rightarrow> (c1 @ c2 @ c3, Panics p)
                   | (c3, Returns (labels, Some err)) \<Rightarrow>
                       (c1 @ c2 @ c3, Returns (Some (FailedToAddImageDefinedLabels err)))
                   | (c3, Returns (labels, None)) \<Rightarrow>
                       (let containerConfig' = containerConfig\<lparr>Labels := labels\<rparr>;
                            hostConfig = \<lparr>Mounts = mnts, Privileged = True\<rparr>;
                            netConfig =
                              \<lparr>EndpointsConfig =
                                 [(network r, \<lparr>NetworkID = network r, IPAddress = ip r\<rparr>)]\<rparr>;
                            create = ContainerCreate containerConfig' hostConfig netConfig (cntName r)
                        in case cli_ContainerCreate env containerConfig' hostConfig netConfig (cntName r) of
                             Some err \<Rightarrow>
                               (c1 @ c2 @ c3 @ [create], Returns (Some (FailedToCreateContainer err)))
                           | None \<Rightarrow>
                               (case cli_ContainerStart env (cntName r) of
                                  Some err \<Rightarrow>
                                    (c1 @ c2 @ c3 @ [create, ContainerStart (cntName r)],
                                     Returns (Some (FailedToStartContainer err)))
                                | None \<Rightarrow>
                                    (c1 @ c2 @ c3 @ [create, ContainerStart (cntName r)],
                                     Returns None))))))"

section \<open>runnerFromContainer\<close>

definition runnerFromContainer ::
  "env \<Rightarrow> string \<Rightarrow> string \<Rightarrow> call list \<times> (runner option \<times> error option) outcome" where
  "runnerFromContainer env name net =
     (case cli_ContainerInspect env name of
        Inl err \<Rightarrow> ([ContainerInspect name], Returns (None, Some (FailedToInspect name err)))
      | Inr cnt \<Rightarrow>
          (case JSON_Config cnt of
             None \<Rightarrow> ([ContainerInspect name], Panics NilPointerDereference)
           | Some cfg \<Rightarrow>
               (let r = \<lparr>cntName = name,
                         projectName = index_label (Labels cfg) (projectNameLabel env),
                         hostname = Hostname cfg,
                         projectLocalDir = index_label (Labels cfg) (projectLocalDirLabel env),
                         hostUser = User cfg,
                         network = net,
                         ip = [],
                         testCmd = []\<rparr>
                in case dockutil_ContainerIP env name of
                     Inl err \<Rightarrow>
                       ([ContainerInspect name, ContainerIP name],
                        Returns (None, Some (FailedToGetContainerIP name err)))
                   | Inr ip' \<Rightarrow>
                       ([ContainerInspect name, ContainerIP name],
                        Returns (Some (r\<lparr>ip := ip'\<rparr>), None)))))"

section \<open>An example environment\<close>

text \<open>
  Modelled from the spec: \<^verbatim>\<open>resolvePath\<close>, which runner.go calls and another file of the
  package declares. The spec's Path Resolver, "given a path string that may begin with a
  home-directory placeholder token, and a concrete home-directory string", produces "the
  path with the placeholder substituted". The theorems below hold for every
  \<^const>\<open>resolvePath\<close> of the environment; this one serves the example.
\<close>

definition resolvePath_example :: "string \<Rightarrow> string \<Rightarrow> string" where
  "resolvePath_example homedir path =
     (if strings_HasPrefix path ''~'' then homedir @ drop 1 path else path)"

text \<open>
  An image whose container configuration carries the labels \<open>ccLabels\<close> and whose
  configuration carries the labels \<open>cfgLabels\<close>.
\<close>

definition example_image :: "labels \<Rightarrow> labels \<Rightarrow> types_ImageInspect" where
  "example_image ccLabels cfgLabels =
     \<lparr>ContainerConfig =
        Some \<lparr>Hostname = [], Cmd = [], Image = [], Labels = ccLabels, User = []\<rparr>,
      Config =
        Some \<lparr>Hostname = [], Cmd = [''bash''], Image = [], Labels = cfgLabels, User = ''user''\<rparr>\<rparr>"

text \<open>
  A host on which every call succeeds: the engine knows one image, described by the two
  label sets, and one container, created for the project \<^verbatim>\<open>proj\<close>.
\<close>

definition example_env :: "labels \<Rightarrow> labels \<Rightarrow> env" where
  "example_env ccLabels cfgLabels =
     \<lparr>sailLabel = ''com.coder.sail'',
      guestHomeDir = ''/home/user'',
      containerLogPath = ''/tmp/code-server.log'',
      metaRoot = ''/home/u/.local/share/sail'',
      resolvePath = resolvePath_example,
      loadCodeServer = Inr ''/home/u/.cache/sail/code-server'',
      dockutil_ContainerIP = (\<lambda>name. Inr ''172.18.0.2''),
      os_MkdirAll = (\<lambda>path perm. None),
      os_UserHomeDir = Inr ''/home/u'',
      os_Getwd = Inr ''/home/u/src'',
      cli_ImageInspectWithRaw = (\<lambda>image'. Inr (example_image ccLabels cfgLabels)),
      cli_ContainerCreate = (\<lambda>config hostConfig netConfig name. None),
      cli_ContainerStart = (\<lambda>name. None),
      cli_ContainerInspect =
        (\<lambda>name. Inr \<lparr>JSON_Config =
                       Some \<lparr>Hostname = ''proj'',
                             Cmd = [''bash'', ''-c'', ''true''],
                             Image = ''img'',
                             Labels = [(''com.coder.sail'', []),
                                       (''com.coder.sail.project_dir'', ''/home/user/proj''),
                                       (''com.coder.sail.project_local_dir'', ''/home/u/P''),
                                       (''com.coder.sail.project_name'', ''P'')],
                             User = ''1000:user''\<rparr>\<rparr>)\<rparr>"

definition example_runner :: runner where
  "example_runner =
     \<lparr>cntName = ''proj'', projectName = ''proj'', hostname = ''proj'',
      projectLocalDir = ''/home/u/proj'', hostUser = ''1000'',
      network = ''sail'', ip = ''172.18.0.2'', testCmd = []\<rparr>"

text \<open>
  The labels of the example image's container configuration: a share, two labels in the
  reserved namespace (one of them with the key of the fixed project-name label) and a
  label outside of it.
\<close>

definition example_labels :: labels where
  "example_labels =
     [(''share.work'', ''~/work:/work''),
      (''com.coder.sail.hat'', ''golang''),
      (''com.coder.sail.project_name'', ''other''),
      (''maintainer'', ''me'')]"

text \<open>
  The request that \<^const>\<open>runContainer\<close> sends to the engine for the example runner and an
  image with these labels and the project root \<^verbatim>\<open>/data\<close>, as the lemma \<open>example_run\<close>
  below computes it.
\<close>

definition example_containerConfig :: container_Config where
  "example_containerConfig =
     \<lparr>Hostname = ''proj'',
      Cmd = [''bash'', ''-c'',
             ''cd /data/proj; code-server --data-dir ~/.config/Code --extensions-dir ~/.vscode/extensions --allow-http --no-auth 2>&1 | tee /tmp/code-server.log''],
      Image = ''img'',
      Labels = [(''com.coder.sail'', []),
                (''com.coder.sail.project_dir'', ''/data/proj''),
                (''com.coder.sail.project_local_dir'', ''/home/u/proj''),
                (''com.coder.sail.project_name'', ''other''),
                (''com.coder.sail.hat'', ''golang'')],
      User = ''1000:user''\<rparr>"

definition example_hostConfig :: container_HostConfig where
  "example_hostConfig =
     \<lparr>Mounts =
        [\<lparr>Type = ''bind'', Source = ''/home/u/.config/Code'', Target = ''/home/user/.config/Code''\<rparr>,
         \<lparr>Type = ''bind'', Source = ''/home/u/.vscode/extensions'',
           Target = ''/home/user/.vscode/extensions''\<rparr>,
         \<lparr>Type = ''bind'', Source = ''/home/u/.local/share/sail/proj/globalStorage'',
           Target = ''/home/user/.local/share/code-server/globalStorage/''\<rparr>,
         \<lparr>Type = ''bind'', Source = ''/home/u/proj'', Target = ''/data/proj''\<rparr>,
         \<lparr>Type = ''bind'', Source = ''/home/u/.cache/sail/code-server'',
           Target = ''/usr/bin/code-server''\<rparr>,
         \<lparr>Type = ''bind'', Source = ''/home/u/work'', Target = ''/work''\<rparr>],
      Privileged = True\<rparr>"

definition example_netConfig :: network_NetworkingConfig where
  "example_netConfig =
     \<lparr>EndpointsConfig = [(''sail'', \<lparr>NetworkID = ''sail'', IPAddress = ''172.18.0.2''\<rparr>)]\<rparr>"


section \<open>Properties of stripDuplicateMounts\<close>

lemma all_less_Suc_split: "(\<forall>j<Suc i. P j) \<longleftrightarrow> P 0 \<and> (\<forall>j<i. P (Suc j))"
  by (metis less_Suc_eq_0_disj Suc_less_eq zero_less_Suc)

text \<open>
  The loop appends to \<^verbatim>\<open>rmounts\<close> the elements at the positions whose target is neither
  in \<^verbatim>\<open>dests\<close> nor the target of an earlier position.
\<close>

lemma stripDuplicateMounts_loop_nths:
  "stripDuplicateMounts_loop ms acc dests =
     acc @ nths ms {i. i < length ms \<and> Target (ms ! i) \<notin> dests
                       \<and> (\<forall>j<i. Target (ms ! j) \<noteq> Target (ms ! i))}"
proof (induction ms arbitrary: acc dests)
  case Nil
  then show ?case by simp
next
  case (Cons m ms)
  show ?case
  proof (cases "Target m \<in> dests")
    case True
    have eq: "{j. j < length ms \<and> Target (ms ! j) \<notin> dests
                  \<and> (\<forall>k<Suc j. Target ((m # ms) ! k) \<noteq> Target (ms ! j))}
            = {i. i < length ms \<and> Target (ms ! i) \<notin> dests
                  \<and> (\<forall>j<i. Target (ms ! j) \<noteq> Target (ms ! i))}"
      using True by (auto simp: all_less_Suc_split)
    show ?thesis using True by (simp add: Cons.IH nths_Cons eq)
  next
    case False
    have eq: "{j. j < length ms \<and> Target (ms ! j) \<notin> dests
                  \<and> (\<forall>k<Suc j. Target ((m # ms) ! k) \<noteq> Target (ms ! j))}
            = {i. i < length ms \<and> Target (ms ! i) \<notin> insert (Target m) dests
                  \<and> (\<forall>j<i. Target (ms ! j) \<noteq> Target (ms ! i))}"
      using False by (auto simp: all_less_Suc_split)
    show ?thesis using False by (simp add: Cons.IH nths_Cons eq)
  qed
qed

lemma stripDuplicateMounts_loop_distinct:
  "distinct (map Target acc) \<Longrightarrow> Target ` set acc \<subseteq> dests \<Longrightarrow>
   distinct (map Target (stripDuplicateMounts_loop ms acc dests))"
proof (induction ms arbitrary: acc dests)
  case Nil
  then show ?case by simp
next
  case (Cons m ms)
  show ?case
  proof (cases "Target m \<in> dests")
    case True
    then show ?thesis using Cons by simp
  next
    case False
    have "distinct (map Target (acc @ [m]))"
      using Cons.prems False by auto
    moreover have "Target ` set (acc @ [m]) \<subseteq> insert (Target m) dests"
      using Cons.prems by auto
    ultimately show ?thesis
      using False Cons.IH by simp
  qed
qed

text \<open>
  C8. For every mount list, \<^verbatim>\<open>stripDuplicateMounts\<close> returns the elements at exactly the
  positions that hold the first occurrence of their target (no earlier position has the
  same target), in their original order (\<^const>\<open>nths\<close> keeps the order of the list), and
  no two mounts of the result have the same target.
\<close>

theorem stripDuplicateMounts_keeps_first_occurrences:
  "stripDuplicateMounts ms =
     nths ms {i. i < length ms \<and> (\<forall>j<i. Target (ms ! j) \<noteq> Target (ms ! i))}
   \<and> distinct (map Target (stripDuplicateMounts ms))"
proof
  show "stripDuplicateMounts ms =
          nths ms {i. i < length ms \<and> (\<forall>j<i. Target (ms ! j) \<noteq> Target (ms ! i))}"
    by (simp add: stripDuplicateMounts_def stripDuplicateMounts_loop_nths)
  show "distinct (map Target (stripDuplicateMounts ms))"
    unfolding stripDuplicateMounts_def by (rule stripDuplicateMounts_loop_distinct) simp_all
qed

lemma stripDuplicateMounts_example:
  "stripDuplicateMounts
     [\<lparr>Type = ''bind'', Source = ''/a'', Target = ''/t''\<rparr>,
      \<lparr>Type = ''bind'', Source = ''/b'', Target = ''/u''\<rparr>,
      \<lparr>Type = ''bind'', Source = ''/c'', Target = ''/t''\<rparr>]
   = [\<lparr>Type = ''bind'', Source = ''/a'', Target = ''/t''\<rparr>,
      \<lparr>Type = ''bind'', Source = ''/b'', Target = ''/u''\<rparr>]"
  by code_simp

theorem stripDuplicateMounts_keeps_first_occurrences_witness:
  "(let ms = [\<lparr>Type = ''bind'', Source = ''/a'', Target = ''/t''\<rparr>,
              \<lparr>Type = ''bind'', Source = ''/b'', Target = ''/u''\<rparr>,
              \<lparr>Type = ''bind'', Source = ''/c'', Target = ''/t''\<rparr>]
    in nths ms {i. i < length ms \<and> (\<forall>j<i. Target (ms ! j) \<noteq> Target (ms ! i))}
         = [\<lparr>Type = ''bind'', Source = ''/a'', Target = ''/t''\<rparr>,
            \<lparr>Type = ''bind'', Source = ''/b'', Target = ''/u''\<rparr>]
       \<and> distinct (map Target (stripDuplicateMounts ms)))"
proof -
  let ?ms = "[\<lparr>Type = ''bind'', Source = ''/a'', Target = ''/t''\<rparr>,
              \<lparr>Type = ''bind'', Source = ''/b'', Target = ''/u''\<rparr>,
              \<lparr>Type = ''bind'', Source = ''/c'', Target = ''/t''\<rparr>]"
  note inst = stripDuplicateMounts_keeps_first_occurrences [of ?ms]
  have positions: "nths ?ms {i. i < length ?ms \<and> (\<forall>j<i. Target (?ms ! j) \<noteq> Target (?ms ! i))}
                   = [\<lparr>Type = ''bind'', Source = ''/a'', Target = ''/t''\<rparr>,
                      \<lparr>Type = ''bind'', Source = ''/b'', Target = ''/u''\<rparr>]"
    by (rule trans [OF inst [THEN conjunct1, symmetric] stripDuplicateMounts_example])
  show ?thesis
    unfolding Let_def by (rule conjI [OF positions inst [THEN conjunct2]])
qed

section \<open>Properties of strings.Split\<close>

lemma dropWhile_sep_Cons:
  assumes "dropWhile (\<lambda>c. c \<noteq> sep) s = x # rest"
  shows "x = sep" and "s = takeWhile (\<lambda>c. c \<noteq> sep) s @ sep # rest"
proof -
  have "\<not> (\<lambda>c. c \<noteq> sep) (hd (dropWhile (\<lambda>c. c \<noteq> sep) s))"
    by (rule hd_dropWhile) (simp add: assms)
  then show x: "x = sep" by (simp add: assms)
  have "takeWhile (\<lambda>c. c \<noteq> sep) s @ dropWhile (\<lambda>c. c \<noteq> sep) s = s"
    by (rule takeWhile_dropWhile_id)
  then show "s = takeWhile (\<lambda>c. c \<noteq> sep) s @ sep # rest" by (simp add: assms x)
qed

lemma count_list_takeWhile_neq: "count_list (takeWhile (\<lambda>c. c \<noteq> sep) s) sep = 0"
  by (induction s) auto

lemma count_list_append': "count_list (xs @ ys) x = count_list xs x + count_list ys x"
  by (induction xs) auto

lemma strings_Split_length: "length (strings_Split v c) = Suc (count_list v c)"
proof (induction v c rule: strings_Split.induct)
  case (1 s sep)
  show ?case
  proof (cases "dropWhile (\<lambda>c. c \<noteq> sep) s")
    case Nil
    then have "s = takeWhile (\<lambda>c. c \<noteq> sep) s"
      by (metis append_Nil2 takeWhile_dropWhile_id)
    then have "count_list s sep = 0" by (metis count_list_takeWhile_neq)
    moreover have "strings_Split s sep = [s]"
      by (subst strings_Split.simps) (simp add: Nil)
    ultimately show ?thesis by simp
  next
    case (Cons x rest)
    have s: "s = takeWhile (\<lambda>c. c \<noteq> sep) s @ sep # rest"
      by (rule dropWhile_sep_Cons(2) [OF Cons])
    have "count_list s sep = count_list (takeWhile (\<lambda>c. c \<noteq> sep) s) sep + count_list (sep # rest) sep"
      by (subst s) (rule count_list_append')
    then have cnt: "count_list s sep = Suc (count_list rest sep)"
      by (simp add: count_list_takeWhile_neq)
    have "strings_Split s sep = takeWhile (\<lambda>c. c \<noteq> sep) s # strings_Split rest sep"
      by (subst strings_Split.simps) (simp add: Cons)
    moreover have "length (strings_Split rest sep) = Suc (count_list rest sep)"
      by (rule "1.IH" [OF Cons])
    ultimately show ?thesis using cnt by simp
  qed
qed


lemma strings_Split_one:
  assumes "count_list v c = 1"
  shows "strings_Split v c = [takeWhile (\<lambda>x. x \<noteq> c) v, tl (dropWhile (\<lambda>x. x \<noteq> c) v)]"
    and "v = takeWhile (\<lambda>x. x \<noteq> c) v @ c # tl (dropWhile (\<lambda>x. x \<noteq> c) v)"
    and "c \<notin> set (takeWhile (\<lambda>x. x \<noteq> c) v)"
    and "c \<notin> set (tl (dropWhile (\<lambda>x. x \<noteq> c) v))"
proof -
  show 3: "c \<notin> set (takeWhile (\<lambda>x. x \<noteq> c) v)"
    by (auto dest: set_takeWhileD)
  have "dropWhile (\<lambda>x. x \<noteq> c) v \<noteq> []"
  proof
    assume "dropWhile (\<lambda>x. x \<noteq> c) v = []"
    then have "v = takeWhile (\<lambda>x. x \<noteq> c) v"
      by (metis append_Nil2 takeWhile_dropWhile_id)
    then have "count_list v c = 0" by (metis count_list_takeWhile_neq)
    with assms show False by simp
  qed
  then obtain x rest where d: "dropWhile (\<lambda>x. x \<noteq> c) v = x # rest"
    by (cases "dropWhile (\<lambda>x. x \<noteq> c) v") auto
  then have rest: "tl (dropWhile (\<lambda>x. x \<noteq> c) v) = rest" by simp
  have v: "v = takeWhile (\<lambda>x. x \<noteq> c) v @ c # rest"
    by (rule dropWhile_sep_Cons(2) [OF d])
  then show "v = takeWhile (\<lambda>x. x \<noteq> c) v @ c # tl (dropWhile (\<lambda>x. x \<noteq> c) v)"
    by (simp only: rest)
  have "count_list v c = count_list (takeWhile (\<lambda>x. x \<noteq> c) v) c + count_list (c # rest) c"
    by (subst v) (rule count_list_append')
  with assms have "count_list rest c = 0"
    by (simp add: count_list_takeWhile_neq)
  then have notin: "c \<notin> set rest" by (simp add: count_list_0_iff)
  then show "c \<notin> set (tl (dropWhile (\<lambda>x. x \<noteq> c) v))" by (simp add: rest)
  from notin have dw: "dropWhile (\<lambda>x. x \<noteq> c) rest = []" by auto
  have "strings_Split rest c = [rest]"
    by (subst strings_Split.simps) (simp only: dw list.case)
  then show "strings_Split v c = [takeWhile (\<lambda>x. x \<noteq> c) v, tl (dropWhile (\<lambda>x. x \<noteq> c) v)]"
    by (subst strings_Split.simps) (simp add: d)
qed

section \<open>Properties of the loops over the image's labels\<close>

lemma addImageDefinedLabels_loop_map_of:
  "distinct (map fst ls) \<Longrightarrow>
   map_of (addImageDefinedLabels_loop env ls labels)
     = map_of labels ++ map_of (filter (\<lambda>(k, v). strings_HasPrefix k (sailLabel env)) ls)"
proof (induction ls arbitrary: labels)
  case Nil
  then show ?case by simp
next
  case (Cons kv ls)
  obtain k v where kv: "kv = (k, v)" by (cases kv)
  have "k \<notin> fst ` set ls" using Cons.prems kv by simp
  then have "k \<notin> fst ` set (filter (\<lambda>(k, v). strings_HasPrefix k (sailLabel env)) ls)"
    by auto
  then have none: "map_of (filter (\<lambda>(k, v). strings_HasPrefix k (sailLabel env)) ls) k = None"
    by (simp add: map_of_eq_None_iff)
  have d: "distinct (map fst ls)" using Cons.prems by simp
  show ?case
  proof (cases "strings_HasPrefix k (sailLabel env)")
    case True
    have "map_of (addImageDefinedLabels_loop env (kv # ls) labels)
          = map_of (AList.update k v labels) ++ map_of (filter (\<lambda>(k, v). strings_HasPrefix k (sailLabel env)) ls)"
      using True kv Cons.IH [OF d] by simp
    also have "\<dots> = map_of labels ++ map_of (filter (\<lambda>(k, v). strings_HasPrefix k (sailLabel env)) (kv # ls))"
      using True kv none by (auto simp: fun_eq_iff map_add_def update_conv' split: option.splits)
    finally show ?thesis .
  next
    case False
    then show ?thesis using kv Cons.IH [OF d] by simp
  qed
qed

lemma addImageDefinedLabels_loop_distinct:
  "distinct (map fst labels) \<Longrightarrow> distinct (map fst (addImageDefinedLabels_loop env ls labels))"
  by (induction ls arbitrary: labels) (auto simp: distinct_update)


lemma imageDefinedMounts_loop_ok:
  "\<forall>(k, v)\<in>set ls. strings_HasPrefix k ''share.'' \<longrightarrow> count_list v CHR '':'' = 1 \<Longrightarrow>
   imageDefinedMounts_loop ls ms =
     (ms @ map (\<lambda>(k, v). \<lparr>Type = TypeBind, Source = takeWhile (\<lambda>c. c \<noteq> CHR '':'') v,
                           Target = tl (dropWhile (\<lambda>c. c \<noteq> CHR '':'') v)\<rparr>)
             (filter (\<lambda>(k, v). strings_HasPrefix k ''share.'') ls), None)"
proof (induction ls arbitrary: ms)
  case Nil
  then show ?case by simp
next
  case (Cons kv ls)
  obtain k v where kv: "kv = (k, v)" by (cases kv)
  have rest: "\<forall>(k, v)\<in>set ls. strings_HasPrefix k ''share.'' \<longrightarrow> count_list v CHR '':'' = 1"
    using Cons.prems by simp
  show ?case
  proof (cases "strings_HasPrefix k ''share.''")
    case True
    then have "count_list v CHR '':'' = 1" using Cons.prems kv by simp
    then have "strings_Split v CHR '':'' = [takeWhile (\<lambda>c. c \<noteq> CHR '':'') v, tl (dropWhile (\<lambda>c. c \<noteq> CHR '':'') v)]"
      by (rule strings_Split_one(1))
    then show ?thesis using True kv Cons.IH [OF rest] by simp
  next
    case False
    then show ?thesis using kv Cons.IH [OF rest] by simp
  qed
qed

section \<open>The calls of the assembly functions\<close>

lemma fst_projectDir: "fst (projectDir env r i) = [ImageInspectWithRaw i]"
  by (simp add: projectDir_def)

lemma fst_imageDefinedMounts: "fst (imageDefinedMounts env i ms) = [ImageInspectWithRaw i]"
  by (simp add: imageDefinedMounts_def)

lemma fst_addImageDefinedLabels: "fst (addImageDefinedLabels env i ls) = [ImageInspectWithRaw i]"
  by (simp add: addImageDefinedLabels_def)


lemma projectDir_callsD: "projectDir env r i = (c, x) \<Longrightarrow> c = [ImageInspectWithRaw i]"
  using fst_projectDir [of env r i] by simp

lemma imageDefinedMounts_callsD: "imageDefinedMounts env i ms = (c, x) \<Longrightarrow> c = [ImageInspectWithRaw i]"
  using fst_imageDefinedMounts [of env i ms] by simp

lemma addImageDefinedLabels_callsD: "addImageDefinedLabels env i ls = (c, x) \<Longrightarrow> c = [ImageInspectWithRaw i]"
  using fst_addImageDefinedLabels [of env i ls] by simp

lemma projectDir_eq_iff:
  "projectDir env r i = (c, x) \<longleftrightarrow> c = [ImageInspectWithRaw i] \<and> snd (projectDir env r i) = x"
  by (cases "projectDir env r i") (auto dest: projectDir_callsD)

lemma imageDefinedMounts_eq_iff:
  "imageDefinedMounts env i ms = (c, x) \<longleftrightarrow> c = [ImageInspectWithRaw i] \<and> snd (imageDefinedMounts env i ms) = x"
  by (cases "imageDefinedMounts env i ms") (auto dest: imageDefinedMounts_callsD)

lemma addImageDefinedLabels_eq_iff:
  "addImageDefinedLabels env i ls = (c, x) \<longleftrightarrow> c = [ImageInspectWithRaw i] \<and> snd (addImageDefinedLabels env i ls) = x"
  by (cases "addImageDefinedLabels env i ls") (auto dest: addImageDefinedLabels_callsD)

lemma mounts_calls:
  "set (fst (mounts env r ms0 i)) \<subseteq>
     {MkdirAll (filepath_Join [metaRoot env, cntName r, ''globalStorage'']) 488,
      ImageInspectWithRaw i, LoadCodeServer}"
  by (simp add: mounts_def Let_def projectDir_eq_iff imageDefinedMounts_eq_iff
           split: prod.splits outcome.splits option.splits sum.splits)

lemma mounts_success:
  assumes "snd (mounts env r ms0 i) = Returns (ms, None)"
  shows "\<exists>pdir bin m6.
           os_MkdirAll env (filepath_Join [metaRoot env, cntName r, ''globalStorage'']) 488 = None
         \<and> snd (projectDir env r i) = Returns (pdir, None)
         \<and> loadCodeServer env = Inr bin
         \<and> snd (imageDefinedMounts env i
                  (ms0 @ [\<lparr>Type = ''bind'', Source = ''~/.config/Code'', Target = ''~/.config/Code''\<rparr>,
                          \<lparr>Type = ''bind'', Source = ''~/.vscode/extensions'', Target = ''~/.vscode/extensions''\<rparr>,
                          \<lparr>Type = ''bind'', Source = filepath_Join [metaRoot env, cntName r, ''globalStorage''],
                            Target = ''~/.local/share/code-server/globalStorage/''\<rparr>,
                          \<lparr>Type = ''bind'', Source = projectLocalDir r, Target = pdir\<rparr>,
                          \<lparr>Type = TypeBind, Source = bin, Target = ''/usr/bin/code-server''\<rparr>]))
             = Returns (m6, None)
         \<and> resolveMounts env m6 = Returns ms"
  using assms
  by (auto simp: mounts_def Let_def projectDir_eq_iff imageDefinedMounts_eq_iff
           split: prod.splits outcome.splits option.splits sum.splits)

lemma runContainer_create:
  assumes "ContainerCreate cfg hc nc nm \<in> set (fst (runContainer env r i))"
  shows "\<exists>mnts pdir labels.
           snd (mounts env r [] i) = Returns (mnts, None)
         \<and> snd (projectDir env r i) = Returns (pdir, None)
         \<and> snd (addImageDefinedLabels env i
                  [(sailLabel env, []), (projectDirLabel env, pdir),
                   (projectLocalDirLabel env, projectLocalDir r),
                   (projectNameLabel env, projectName r)]) = Returns (labels, None)
         \<and> cfg = \<lparr>Hostname = hostname r,
                   Cmd = [''bash'', ''-c'',
                          if testCmd r \<noteq> [] then testCmd r @ ''; exit 1''
                          else ''cd '' @ pdir
                      @ ''; code-server --data-dir ~/.config/Code --extensions-dir ~/.vscode/extensions --allow-http --no-auth 2>&1 | tee ''
                      @ containerLogPath env],
                   Image = i, Labels = labels, User = hostUser r @ '':user''\<rparr>
         \<and> hc = \<lparr>Mounts = mnts, Privileged = True\<rparr>
         \<and> nc = \<lparr>EndpointsConfig = [(network r, \<lparr>NetworkID = network r, IPAddress = ip r\<rparr>)]\<rparr>
         \<and> nm = cntName r"
proof -
  have no: "ContainerCreate cfg hc nc nm \<notin> set (fst (mounts env r [] i))"
    using mounts_calls [of env r "[]" i] by auto
  obtain c1 x1 where m: "mounts env r [] i = (c1, x1)" by (cases "mounts env r [] i")
  with no have c1: "ContainerCreate cfg hc nc nm \<notin> set c1" by simp
  show ?thesis
    using assms c1
    by (auto simp: runContainer_def m Let_def projectDir_eq_iff addImageDefinedLabels_eq_iff
           split: prod.splits outcome.splits option.splits sum.splits)
qed

lemma imageDefinedMounts_loop_None:
  "imageDefinedMounts_loop ls ms = (res, None) \<Longrightarrow>
   res = ms @ map (\<lambda>(k, v). \<lparr>Type = TypeBind, Source = strings_Split v CHR '':'' ! 0,
                               Target = strings_Split v CHR '':'' ! 1\<rparr>)
                 (filter (\<lambda>(k, v). strings_HasPrefix k ''share.'') ls)"
proof (induction ls arbitrary: ms)
  case Nil
  then show ?case by simp
next
  case (Cons kv ls)
  obtain k v where kv: "kv = (k, v)" by (cases kv)
  show ?case
  proof (cases "strings_HasPrefix k ''share.''")
    case True
    show ?thesis
    proof (cases "length (strings_Split v CHR '':'') = 2")
      case two: True
      with True kv Cons.prems
      have "imageDefinedMounts_loop ls
              (ms @ [\<lparr>Type = TypeBind, Source = strings_Split v CHR '':'' ! 0,
                      Target = strings_Split v CHR '':'' ! 1\<rparr>]) = (res, None)"
        by (simp add: Let_def)
      from Cons.IH [OF this] show ?thesis using True kv by simp
    next
      case False
      with True kv Cons.prems show ?thesis by (simp add: Let_def)
    qed
  next
    case False
    with kv Cons.prems have "imageDefinedMounts_loop ls ms = (res, None)" by simp
    from Cons.IH [OF this] show ?thesis using False kv by simp
  qed
qed

lemma imageDefinedMounts_loop_malformed:
  "\<exists>(k, v)\<in>set ls. strings_HasPrefix k ''share.'' \<and> count_list v CHR '':'' \<noteq> 1 \<Longrightarrow>
   \<exists>pre k v post. ls = pre @ (k, v) # post
      \<and> (\<forall>(k', v')\<in>set pre. strings_HasPrefix k' ''share.'' \<longrightarrow> count_list v' CHR '':'' = 1)
      \<and> strings_HasPrefix k ''share.'' \<and> count_list v CHR '':'' \<noteq> 1
      \<and> (\<forall>ms. imageDefinedMounts_loop ls ms = ([], Some (InvalidShare v)))"
proof (induction ls)
  case Nil
  then show ?case by simp
next
  case (Cons kv ls)
  obtain k v where kv: "kv = (k, v)" by (cases kv)
  show ?case
  proof (cases "strings_HasPrefix k ''share.'' \<and> count_list v CHR '':'' \<noteq> 1")
    case True
    then have "length (strings_Split v CHR '':'') \<noteq> 2"
      by (simp add: strings_Split_length)
    then have "\<forall>ms. imageDefinedMounts_loop (kv # ls) ms = ([], Some (InvalidShare v))"
      using True kv by simp
    then have "kv # ls = [] @ (k, v) # ls
      \<and> (\<forall>(k', v')\<in>set []. strings_HasPrefix k' ''share.'' \<longrightarrow> count_list v' CHR '':'' = 1)
      \<and> strings_HasPrefix k ''share.'' \<and> count_list v CHR '':'' \<noteq> 1
      \<and> (\<forall>ms. imageDefinedMounts_loop (kv # ls) ms = ([], Some (InvalidShare v)))"
      using True kv by simp
    then show ?thesis by blast
  next
    case False
    then have ex: "\<exists>(k, v)\<in>set ls. strings_HasPrefix k ''share.'' \<and> count_list v CHR '':'' \<noteq> 1"
      using Cons.prems kv by auto
    have step: "\<exists>ms'. imageDefinedMounts_loop (kv # ls) ms = imageDefinedMounts_loop ls ms'" for ms
    proof (cases "strings_HasPrefix k ''share.''")
      case True
      then have "count_list v CHR '':'' = 1" using False by simp
      then have "length (strings_Split v CHR '':'') = 2" by (simp add: strings_Split_length)
      then show ?thesis using True kv by (auto simp: Let_def)
    next
      case False
      then show ?thesis using kv by auto
    qed
    from Cons.IH [OF ex] obtain pre k2 v2 post where
      p: "ls = pre @ (k2, v2) # post"
         "\<forall>(k', v')\<in>set pre. strings_HasPrefix k' ''share.'' \<longrightarrow> count_list v' CHR '':'' = 1"
         "strings_HasPrefix k2 ''share.''" "count_list v2 CHR '':'' \<noteq> 1"
         "\<forall>ms. imageDefinedMounts_loop ls ms = ([], Some (InvalidShare v2))"
      by blast
    have 1: "kv # ls = (kv # pre) @ (k2, v2) # post" using p(1) by simp
    have 2: "\<forall>(k', v')\<in>set (kv # pre). strings_HasPrefix k' ''share.'' \<longrightarrow> count_list v' CHR '':'' = 1"
      using p(2) False kv by auto
    have 3: "\<forall>ms. imageDefinedMounts_loop (kv # ls) ms = ([], Some (InvalidShare v2))"
      using step p(5) by metis
    show ?thesis using 1 2 3 p(3,4) by blast
  qed
qed

lemma HasPrefix_append: "strings_HasPrefix (s @ t) s"
  by (simp add: strings_HasPrefix_def)

lemma HasPrefix_self: "strings_HasPrefix s s"
  by (simp add: strings_HasPrefix_def)

section \<open>The project directory, the entry command and the labels\<close>

text \<open>
  C4. When the image can be inspected, the guest project directory that \<^verbatim>\<open>projectDir\<close>
  computes is \<^verbatim>\<open>filepath.Join\<close> of the value of the image's \<^verbatim>\<open>project_root\<close> label and
  the project name when the image configuration has that label, and \<^verbatim>\<open>filepath.Join\<close> of
  the guest home directory and the project name when it has not.
\<close>

theorem projectDir_joins_root_and_name:
  assumes "cli_ImageInspectWithRaw env image' = Inr img" and "Config img = Some cfg"
  shows "(\<forall>proot. map_of (Labels cfg) ''project_root'' = Some proot \<longrightarrow>
            snd (projectDir env r image') = Returns (filepath_Join [proot, projectName r], None))
       \<and> (map_of (Labels cfg) ''project_root'' = None \<longrightarrow>
            snd (projectDir env r image')
              = Returns (filepath_Join [guestHomeDir env, projectName r], None))"
  using assms by (simp add: projectDir_def)

text \<open>
  C5. In every container creation that \<^verbatim>\<open>runContainer\<close> sends to the engine, the command is
  \<^verbatim>\<open>bash -c\<close> with the entry command: \<^verbatim>\<open>cd\<close> to the project directory, the code-server
  invocation and \<^verbatim>\<open>2>&1 | tee\<close> of the log path when the runner's test command is empty,
  and the test command followed by \<^verbatim>\<open>; exit 1\<close> when it is not. Nothing but the test
  command being empty selects between the two.
\<close>

theorem runContainer_entry_command:
  assumes "ContainerCreate cfg hc nc nm \<in> set (fst (runContainer env r image'))"
  shows "\<exists>pdir. snd (projectDir env r image') = Returns (pdir, None)
           \<and> Cmd cfg =
               [''bash'', ''-c'',
                if testCmd r = []
                then ''cd '' @ pdir
                       @ ''; code-server --data-dir ~/.config/Code --extensions-dir ~/.vscode/extensions --allow-http --no-auth 2>&1 | tee ''
                       @ containerLogPath env
                else testCmd r @ ''; exit 1'']"
proof -
  from runContainer_create [OF assms] obtain pdir where
    "snd (projectDir env r image') = Returns (pdir, None)"
    "Cmd cfg = [''bash'', ''-c'',
                if testCmd r \<noteq> [] then testCmd r @ ''; exit 1''
                else ''cd '' @ pdir
                       @ ''; code-server --data-dir ~/.config/Code --extensions-dir ~/.vscode/extensions --allow-http --no-auth 2>&1 | tee ''
                       @ containerLogPath env]"
    by force
  then show ?thesis by auto
qed

lemma fixed_labels_distinct:
  "distinct (map fst [(sailLabel env, x1), (projectDirLabel env, x2),
                      (projectLocalDirLabel env, x3), (projectNameLabel env, x4)])"
  by (simp add: projectDirLabel_def projectLocalDirLabel_def projectNameLabel_def)

lemma fixed_labels_prefix:
  "k \<in> {sailLabel env, projectDirLabel env, projectLocalDirLabel env, projectNameLabel env}
   \<Longrightarrow> strings_HasPrefix k (sailLabel env)"
  by (auto simp: projectDirLabel_def projectLocalDirLabel_def projectNameLabel_def
                 HasPrefix_append HasPrefix_self)

lemma runContainer_create_labels:
  assumes "ContainerCreate cfg hc nc nm \<in> set (fst (runContainer env r image'))"
      and "cli_ImageInspectWithRaw env image' = Inr ins"
      and "ContainerConfig ins = Some cc"
      and "distinct (map fst (Labels cc))"
  shows "\<exists>pdir. snd (projectDir env r image') = Returns (pdir, None)
     \<and> snd (addImageDefinedLabels env image'
               [(sailLabel env, []), (projectDirLabel env, pdir),
                (projectLocalDirLabel env, projectLocalDir r),
                (projectNameLabel env, projectName r)]) = Returns (Labels cfg, None)
     \<and> map_of (Labels cfg) =
         map_of [(sailLabel env, []), (projectDirLabel env, pdir),
                 (projectLocalDirLabel env, projectLocalDir r),
                 (projectNameLabel env, projectName r)]
         ++ map_of (filter (\<lambda>(k, v). strings_HasPrefix k (sailLabel env)) (Labels cc))
     \<and> distinct (map fst (Labels cfg))"
proof -
  from runContainer_create [OF assms(1)] obtain pdir labels where
    pd: "snd (projectDir env r image') = Returns (pdir, None)" and
    ad: "snd (addImageDefinedLabels env image'
               [(sailLabel env, []), (projectDirLabel env, pdir),
                (projectLocalDirLabel env, projectLocalDir r),
                (projectNameLabel env, projectName r)]) = Returns (labels, None)" and
    cfg: "Labels cfg = labels"
    by force
  let ?fixed = "[(sailLabel env, []), (projectDirLabel env, pdir),
                (projectLocalDirLabel env, projectLocalDir r),
                (projectNameLabel env, projectName r)]"
  from ad assms(2,3) have labels: "labels = addImageDefinedLabels_loop env (Labels cc) ?fixed"
    by (simp add: addImageDefinedLabels_def)
  have "map_of labels = map_of ?fixed
          ++ map_of (filter (\<lambda>(k, v). strings_HasPrefix k (sailLabel env)) (Labels cc))"
    unfolding labels by (rule addImageDefinedLabels_loop_map_of [OF assms(4)])
  moreover have "distinct (map fst labels)"
    unfolding labels by (rule addImageDefinedLabels_loop_distinct [OF fixed_labels_distinct])
  ultimately show ?thesis using pd ad cfg by blast
qed

lemma map_of_filter_Some:
  assumes "distinct (map fst ls)" and "(k, v) \<in> set ls" and "P k"
  shows "map_of (filter (\<lambda>(k, v). P k) ls) k = Some v"
proof -
  have "distinct (map fst (filter (\<lambda>(k, v). P k) ls))"
    using assms(1) by (rule distinct_map_filter)
  moreover have "(k, v) \<in> set (filter (\<lambda>(k, v). P k) ls)"
    using assms(2,3) by simp
  ultimately show ?thesis by (rule map_of_is_SomeI)
qed

lemma map_of_filter_None:
  "\<not> P k \<or> k \<notin> fst ` set ls \<Longrightarrow> map_of (filter (\<lambda>(k, v). P k) ls) k = None"
  by (auto simp: map_of_eq_None_iff)

text \<open>
  C6. In every container creation that \<^verbatim>\<open>runContainer\<close> sends to the engine, the label set
  has the four fixed keys (presence marker, project directory, local project directory,
  project name); every label of the image's container configuration whose key starts with
  the reserved prefix is there with its key and value; no key outside the reserved prefix
  is there; and a key that the image does not define has the fixed value or none. The
  keys of the image's label map are distinct, as those of every Go map.
\<close>

theorem runContainer_labels:
  assumes "ContainerCreate cfg hc nc nm \<in> set (fst (runContainer env r image'))"
      and "cli_ImageInspectWithRaw env image' = Inr ins"
      and "ContainerConfig ins = Some cc"
      and "distinct (map fst (Labels cc))"
  shows "\<exists>pdir. snd (projectDir env r image') = Returns (pdir, None)
     \<and> {sailLabel env, projectDirLabel env, projectLocalDirLabel env, projectNameLabel env}
         \<subseteq> dom (map_of (Labels cfg))
     \<and> (\<forall>(k, v)\<in>set (Labels cc).
           strings_HasPrefix k (sailLabel env) \<longrightarrow> map_of (Labels cfg) k = Some v)
     \<and> (\<forall>k. \<not> strings_HasPrefix k (sailLabel env) \<longrightarrow> map_of (Labels cfg) k = None)
     \<and> (\<forall>k. k \<notin> fst ` set (Labels cc) \<longrightarrow>
           map_of (Labels cfg) k =
             map_of [(sailLabel env, []), (projectDirLabel env, pdir),
                     (projectLocalDirLabel env, projectLocalDir r),
                     (projectNameLabel env, projectName r)] k)"
proof -
  from runContainer_create_labels [OF assms] obtain pdir where
    pd: "snd (projectDir env r image') = Returns (pdir, None)" and
    m: "map_of (Labels cfg) =
         map_of [(sailLabel env, []), (projectDirLabel env, pdir),
                 (projectLocalDirLabel env, projectLocalDir r),
                 (projectNameLabel env, projectName r)]
         ++ map_of (filter (\<lambda>(k, v). strings_HasPrefix k (sailLabel env)) (Labels cc))"
    by blast
  let ?fixed = "[(sailLabel env, []), (projectDirLabel env, pdir),
                 (projectLocalDirLabel env, projectLocalDir r),
                 (projectNameLabel env, projectName r)]"
  let ?img = "filter (\<lambda>(k, v). strings_HasPrefix k (sailLabel env)) (Labels cc)"
  have a: "{sailLabel env, projectDirLabel env, projectLocalDirLabel env, projectNameLabel env}
           \<subseteq> dom (map_of (Labels cfg))"
  proof -
    have "dom (map_of ?fixed) = {sailLabel env, projectDirLabel env, projectLocalDirLabel env, projectNameLabel env}"
      by (simp add: dom_map_of_conv_image_fst)
    then show ?thesis unfolding m dom_map_add by blast
  qed
  have b: "\<forall>(k, v)\<in>set (Labels cc).
             strings_HasPrefix k (sailLabel env) \<longrightarrow> map_of (Labels cfg) k = Some v"
  proof (clarify)
    fix k v assume "(k, v) \<in> set (Labels cc)" "strings_HasPrefix k (sailLabel env)"
    then have "map_of ?img k = Some v"
      by (rule map_of_filter_Some [OF assms(4)])
    then show "map_of (Labels cfg) k = Some v" unfolding m by (simp add: map_add_def)
  qed
  have c: "\<forall>k. \<not> strings_HasPrefix k (sailLabel env) \<longrightarrow> map_of (Labels cfg) k = None"
  proof (clarify)
    fix k assume no: "\<not> strings_HasPrefix k (sailLabel env)"
    then have "map_of ?img k = None" by (simp add: map_of_filter_None)
    moreover have "k \<notin> {sailLabel env, projectDirLabel env, projectLocalDirLabel env, projectNameLabel env}"
      using no fixed_labels_prefix by blast
    then have "map_of ?fixed k = None" by (simp add: map_of_eq_None_iff)
    ultimately show "map_of (Labels cfg) k = None" unfolding m by (simp add: map_add_def)
  qed
  have d: "\<forall>k. k \<notin> fst ` set (Labels cc) \<longrightarrow> map_of (Labels cfg) k = map_of ?fixed k"
  proof (clarify)
    fix k assume "k \<notin> fst ` set (Labels cc)"
    then have "map_of ?img k = None" by (simp add: map_of_filter_None)
    then show "map_of (Labels cfg) k = map_of ?fixed k" unfolding m by (simp add: map_add_def)
  qed
  show ?thesis using pd a b c d by blast
qed

text \<open>
  C10. When the image's container configuration defines a label whose key is one of the
  four fixed keys, the container is created with the image's value under that key:
  \<^verbatim>\<open>addImageDefinedLabels\<close> returns the label set without an error, after it has written
  the image's labels over the fixed ones.
\<close>

theorem image_label_overwrites_fixed_label:
  assumes "ContainerCreate cfg hc nc nm \<in> set (fst (runContainer env r image'))"
      and "cli_ImageInspectWithRaw env image' = Inr ins"
      and "ContainerConfig ins = Some cc"
      and "distinct (map fst (Labels cc))"
      and "(k, v) \<in> set (Labels cc)"
      and "k \<in> {sailLabel env, projectDirLabel env, projectLocalDirLabel env, projectNameLabel env}"
  shows "map_of (Labels cfg) k = Some v
       \<and> (\<exists>pdir. snd (addImageDefinedLabels env image'
                         [(sailLabel env, []), (projectDirLabel env, pdir),
                          (projectLocalDirLabel env, projectLocalDir r),
                          (projectNameLabel env, projectName r)]) = Returns (Labels cfg, None))"
proof -
  from runContainer_create_labels [OF assms(1-4)] obtain pdir where
    ad: "snd (addImageDefinedLabels env image'
               [(sailLabel env, []), (projectDirLabel env, pdir),
                (projectLocalDirLabel env, projectLocalDir r),
                (projectNameLabel env, projectName r)]) = Returns (Labels cfg, None)" and
    m: "map_of (Labels cfg) =
         map_of [(sailLabel env, []), (projectDirLabel env, pdir),
                 (projectLocalDirLabel env, projectLocalDir r),
                 (projectNameLabel env, projectName r)]
         ++ map_of (filter (\<lambda>(k, v). strings_HasPrefix k (sailLabel env)) (Labels cc))"
    by blast
  have "strings_HasPrefix k (sailLabel env)" by (rule fixed_labels_prefix [OF assms(6)])
  with assms(5) have "map_of (filter (\<lambda>(k, v). strings_HasPrefix k (sailLabel env)) (Labels cc)) k = Some v"
    by (rule map_of_filter_Some [OF assms(4)])
  then have "map_of (Labels cfg) k = Some v" unfolding m by (simp add: map_add_def)
  with ad show ?thesis by blast
qed

section \<open>Creation and start\<close>

lemma runContainer_after_create:
  assumes "ContainerCreate cfg hc nc nm \<in> set (fst (runContainer env r image'))"
  shows "fst (runContainer env r image') =
           fst (mounts env r [] image') @ [ImageInspectWithRaw image', ImageInspectWithRaw image',
             ContainerCreate cfg hc nc nm]
           @ (if cli_ContainerCreate env cfg hc nc nm = None then [ContainerStart (cntName r)] else [])
       \<and> snd (runContainer env r image') =
           (case cli_ContainerCreate env cfg hc nc nm of
              Some err \<Rightarrow> Returns (Some (FailedToCreateContainer err))
            | None \<Rightarrow>
                (case cli_ContainerStart env (cntName r) of
                   Some err \<Rightarrow> Returns (Some (FailedToStartContainer err))
                 | None \<Rightarrow> Returns None))"
proof -
  from runContainer_create [OF assms] obtain mnts pdir labels where
    ms: "snd (mounts env r [] image') = Returns (mnts, None)" and
    pd: "snd (projectDir env r image') = Returns (pdir, None)" and
    ad: "snd (addImageDefinedLabels env image'
               [(sailLabel env, []), (projectDirLabel env, pdir),
                (projectLocalDirLabel env, projectLocalDir r),
                (projectNameLabel env, projectName r)]) = Returns (labels, None)" and
    cfg: "cfg = \<lparr>Hostname = hostname r,
                   Cmd = [''bash'', ''-c'',
                          if testCmd r \<noteq> [] then testCmd r @ ''; exit 1''
                          else ''cd '' @ pdir
                      @ ''; code-server --data-dir ~/.config/Code --extensions-dir ~/.vscode/extensions --allow-http --no-auth 2>&1 | tee ''
                      @ containerLogPath env],
                   Image = image', Labels = labels, User = hostUser r @ '':user''\<rparr>" and
    hc: "hc = \<lparr>Mounts = mnts, Privileged = True\<rparr>" and
    nc: "nc = \<lparr>EndpointsConfig = [(network r, \<lparr>NetworkID = network r, IPAddress = ip r\<rparr>)]\<rparr>" and
    nm: "nm = cntName r"
    by blast
  have m: "mounts env r [] image' = (fst (mounts env r [] image'), Returns (mnts, None))"
    using ms by (metis prod.collapse)
  have p: "projectDir env r image' = ([ImageInspectWithRaw image'], Returns (pdir, None))"
    using pd by (simp add: projectDir_eq_iff)
  have a: "addImageDefinedLabels env image'
               [(sailLabel env, []), (projectDirLabel env, pdir),
                (projectLocalDirLabel env, projectLocalDir r),
                (projectNameLabel env, projectName r)] = ([ImageInspectWithRaw image'], Returns (labels, None))"
    using ad by (simp add: addImageDefinedLabels_eq_iff)
  have run: "runContainer env r image' =
     (case cli_ContainerCreate env cfg hc nc nm of
        Some err \<Rightarrow>
          (fst (mounts env r [] image') @ [ImageInspectWithRaw image'] @ [ImageInspectWithRaw image']
             @ [ContainerCreate cfg hc nc nm],
           Returns (Some (FailedToCreateContainer err)))
      | None \<Rightarrow>
          (case cli_ContainerStart env (cntName r) of
             Some err \<Rightarrow>
               (fst (mounts env r [] image') @ [ImageInspectWithRaw image'] @ [ImageInspectWithRaw image']
                  @ [ContainerCreate cfg hc nc nm, ContainerStart (cntName r)],
                Returns (Some (FailedToStartContainer err)))
           | None \<Rightarrow>
               (fst (mounts env r [] image') @ [ImageInspectWithRaw image'] @ [ImageInspectWithRaw image']
                  @ [ContainerCreate cfg hc nc nm, ContainerStart (cntName r)],
                Returns None)))"
    unfolding runContainer_def
    by (subst m) (simp add: p a Let_def cfg hc nc nm split: option.split)
  show ?thesis
    unfolding run by (simp split: option.split)
qed

text \<open>
  C7. When \<^verbatim>\<open>runContainer\<close> has sent a container creation, the engine has accepted it and
  the start of the container fails, \<^verbatim>\<open>runContainer\<close> returns the start error wrapped in
  "failed to start container", and the start is its last call: the calls it made are the
  inspections, the directory creation and the code-server load before the creation, the
  creation, and the start, with nothing after it that would remove the container.
\<close>

theorem runContainer_start_failure_no_rollback:
  assumes "ContainerCreate cfg hc nc nm \<in> set (fst (runContainer env r image'))"
      and "cli_ContainerCreate env cfg hc nc nm = None"
      and "cli_ContainerStart env (cntName r) = Some err"
  shows "snd (runContainer env r image') = Returns (Some (FailedToStartContainer err))
       \<and> (\<exists>pre. fst (runContainer env r image')
                    = pre @ [ContainerCreate cfg hc nc nm, ContainerStart (cntName r)]
                \<and> set pre \<subseteq> {MkdirAll (filepath_Join [metaRoot env, cntName r, ''globalStorage'']) 488,
                               ImageInspectWithRaw image', LoadCodeServer})"
proof -
  note after = runContainer_after_create [OF assms(1)]
  have res: "snd (runContainer env r image') = Returns (Some (FailedToStartContainer err))"
    using after assms(2,3) by simp
  let ?pre = "fst (mounts env r [] image') @ [ImageInspectWithRaw image', ImageInspectWithRaw image']"
  have "fst (runContainer env r image')
          = ?pre @ [ContainerCreate cfg hc nc nm, ContainerStart (cntName r)]"
    using after assms(2) by simp
  moreover have "set ?pre \<subseteq> {MkdirAll (filepath_Join [metaRoot env, cntName r, ''globalStorage'']) 488,
                               ImageInspectWithRaw image', LoadCodeServer}"
    using mounts_calls [of env r "[]" image'] by auto
  ultimately show ?thesis using res by blast
qed

section \<open>The mount list\<close>

lemma resolveMounts_loop_all2:
  "resolveMounts_loop env home ms = Returns ms' \<Longrightarrow>
   list_all2 (\<lambda>m m'. Type m' = Type m
                  \<and> filepath_Abs env (resolvePath env home (Source m)) = (Source m', None)
                  \<and> Target m' = resolvePath env (guestHomeDir env) (Target m)) ms ms'"
proof (induction ms arbitrary: ms')
  case Nil
  then show ?case by simp
next
  case (Cons m ms)
  from Cons.prems obtain src rest where
    a: "filepath_Abs env (resolvePath env home (Source m)) = (src, None)" and
    r: "resolveMounts_loop env home ms = Returns rest" and
    e: "ms' = m\<lparr>Source := src, Target := resolvePath env (guestHomeDir env) (Target m)\<rparr> # rest"
    by (auto split: prod.splits option.splits outcome.splits)
  from Cons.IH [OF r] show ?case using a e by simp
qed

text \<open>
  C9. In every container creation that \<^verbatim>\<open>runContainer\<close> sends to the engine, the mount
  list is, element by element, the resolution of this list: the configuration directory,
  the extension directory, the global-storage directory of the container, the project
  directory, the code-server binary, and then one bind mount for every share label of the
  image in the order of the iteration. Resolution of an element keeps its type, makes its
  source the absolute path (\<^verbatim>\<open>filepath.Abs\<close>) of \<^verbatim>\<open>resolvePath\<close> with the host home
  directory, and makes its target \<^verbatim>\<open>resolvePath\<close> with the guest home directory.
\<close>

theorem mounts_order_and_resolution:
  assumes "ContainerCreate cfg hc nc nm \<in> set (fst (runContainer env r image'))"
  shows "\<exists>pdir bin ins cc home.
      snd (projectDir env r image') = Returns (pdir, None)
    \<and> loadCodeServer env = Inr bin
    \<and> cli_ImageInspectWithRaw env image' = Inr ins \<and> ContainerConfig ins = Some cc
    \<and> os_UserHomeDir env = Inr home
    \<and> list_all2 (\<lambda>m m'. Type m' = Type m
                     \<and> filepath_Abs env (resolvePath env home (Source m)) = (Source m', None)
                     \<and> Target m' = resolvePath env (guestHomeDir env) (Target m))
        ([\<lparr>Type = ''bind'', Source = ''~/.config/Code'', Target = ''~/.config/Code''\<rparr>,
          \<lparr>Type = ''bind'', Source = ''~/.vscode/extensions'', Target = ''~/.vscode/extensions''\<rparr>,
          \<lparr>Type = ''bind'', Source = filepath_Join [metaRoot env, cntName r, ''globalStorage''],
            Target = ''~/.local/share/code-server/globalStorage/''\<rparr>,
          \<lparr>Type = ''bind'', Source = projectLocalDir r, Target = pdir\<rparr>,
          \<lparr>Type = ''bind'', Source = bin, Target = ''/usr/bin/code-server''\<rparr>]
         @ map (\<lambda>(k, v). \<lparr>Type = ''bind'', Source = strings_Split v CHR '':'' ! 0,
                            Target = strings_Split v CHR '':'' ! 1\<rparr>)
               (filter (\<lambda>(k, v). strings_HasPrefix k ''share.'') (Labels cc)))
        (Mounts hc)"
proof -
  from runContainer_create [OF assms] obtain mnts where
    ms: "snd (mounts env r [] image') = Returns (mnts, None)" and hc: "Mounts hc = mnts"
    by force
  from mounts_success [OF ms] obtain pdir bin m6 where
    pd: "snd (projectDir env r image') = Returns (pdir, None)" and
    bin: "loadCodeServer env = Inr bin" and
    im: "snd (imageDefinedMounts env image'
                ([] @ [\<lparr>Type = ''bind'', Source = ''~/.config/Code'', Target = ''~/.config/Code''\<rparr>,
                  \<lparr>Type = ''bind'', Source = ''~/.vscode/extensions'', Target = ''~/.vscode/extensions''\<rparr>,
                  \<lparr>Type = ''bind'', Source = filepath_Join [metaRoot env, cntName r, ''globalStorage''],
                    Target = ''~/.local/share/code-server/globalStorage/''\<rparr>,
                  \<lparr>Type = ''bind'', Source = projectLocalDir r, Target = pdir\<rparr>,
                  \<lparr>Type = TypeBind, Source = bin, Target = ''/usr/bin/code-server''\<rparr>]))
          = Returns (m6, None)" and
    rs: "resolveMounts env m6 = Returns mnts"
    by blast
  from im obtain ins cc where
    ins: "cli_ImageInspectWithRaw env image' = Inr ins" and cc: "ContainerConfig ins = Some cc" and
    loop: "imageDefinedMounts_loop (Labels cc)
             [\<lparr>Type = ''bind'', Source = ''~/.config/Code'', Target = ''~/.config/Code''\<rparr>,
              \<lparr>Type = ''bind'', Source = ''~/.vscode/extensions'', Target = ''~/.vscode/extensions''\<rparr>,
              \<lparr>Type = ''bind'', Source = filepath_Join [metaRoot env, cntName r, ''globalStorage''],
                Target = ''~/.local/share/code-server/globalStorage/''\<rparr>,
              \<lparr>Type = ''bind'', Source = projectLocalDir r, Target = pdir\<rparr>,
              \<lparr>Type = TypeBind, Source = bin, Target = ''/usr/bin/code-server''\<rparr>] = (m6, None)"
    by (auto simp: imageDefinedMounts_def split: sum.splits option.splits)
  from rs obtain home where
    home: "os_UserHomeDir env = Inr home" and rl: "resolveMounts_loop env home m6 = Returns mnts"
    by (auto simp: resolveMounts_def split: sum.splits)
  note m6 = imageDefinedMounts_loop_None [OF loop]
  from resolveMounts_loop_all2 [OF rl] show ?thesis
    using pd bin ins cc home unfolding m6 hc by (auto simp: TypeBind_def)
qed

section \<open>Share labels and recovery\<close>

lemma imageDefinedMounts_inspected:
  assumes "cli_ImageInspectWithRaw env image' = Inr ins" and "ContainerConfig ins = Some cc"
  shows "imageDefinedMounts env image' ms
           = ([ImageInspectWithRaw image'], Returns (imageDefinedMounts_loop (Labels cc) ms))"
  using assms by (simp add: imageDefinedMounts_def)

lemma mounts_share_error:
  assumes "cli_ImageInspectWithRaw env image' = Inr ins" and "ContainerConfig ins = Some cc"
      and "\<forall>ms. imageDefinedMounts_loop (Labels cc) ms = ([], Some e)"
  shows "snd (mounts env r ms0 image') \<noteq> Returns (ms', None)"
    and "os_MkdirAll env (filepath_Join [metaRoot env, cntName r, ''globalStorage'']) 488 = None
         \<Longrightarrow> loadCodeServer env = Inr bin \<Longrightarrow> Config ins = Some c
         \<Longrightarrow> snd (mounts env r ms0 image') = Returns ([], Some e)"
proof -
  have im: "imageDefinedMounts env image' ms = ([ImageInspectWithRaw image'], Returns ([], Some e))" for ms
    using imageDefinedMounts_inspected [OF assms(1,2)] assms(3) by simp
  show "snd (mounts env r ms0 image') \<noteq> Returns (ms', None)"
  proof
    assume "snd (mounts env r ms0 image') = Returns (ms', None)"
    from mounts_success [OF this] show False by (simp add: im)
  qed
  assume mk: "os_MkdirAll env (filepath_Join [metaRoot env, cntName r, ''globalStorage'']) 488 = None"
     and bin: "loadCodeServer env = Inr bin" and c: "Config ins = Some c"
  have "\<exists>pd. projectDir env r image' = ([ImageInspectWithRaw image'], Returns (pd, None))"
    using assms(1) c by (simp add: projectDir_def split: option.split)
  then obtain pd where pd: "projectDir env r image' = ([ImageInspectWithRaw image'], Returns (pd, None))" ..
  show "snd (mounts env r ms0 image') = Returns ([], Some e)"
    by (simp add: mounts_def Let_def mk bin pd im)
qed

lemma runContainer_mounts_error:
  assumes "snd (mounts env r [] image') = Returns (ms, Some e)"
  shows "snd (runContainer env r image') = Returns (Some (FailedToAssembleMounts e))"
proof -
  have m: "mounts env r [] image' = (fst (mounts env r [] image'), Returns (ms, Some e))"
    using assms by (metis prod.collapse)
  show ?thesis unfolding runContainer_def by (subst m) simp
qed

text \<open>
  C2. Splitting a value at \<^verbatim>\<open>:\<close> gives exactly two tokens if and only if the value has
  exactly one colon. When every label of the image with the prefix \<^verbatim>\<open>share.\<close> has a value
  with exactly one colon, \<^verbatim>\<open>imageDefinedMounts\<close> appends for each of them, in the order of
  the iteration, a bind mount whose source is the first token and whose target is the
  second, the value being source, colon, target. When some label with the prefix has a
  value with no colon or with more than one, \<^verbatim>\<open>imageDefinedMounts\<close> returns the error
  "invalid share" with such a value, no call of \<^verbatim>\<open>mounts\<close> returns a mount list (it returns
  that error whenever it gets as far as the shares), \<^verbatim>\<open>runContainer\<close> returns the error
  wrapped in "failed to assemble mounts", and no container creation is sent.
\<close>

theorem share_label_needs_exactly_one_colon:
  assumes "cli_ImageInspectWithRaw env image' = Inr ins" and "ContainerConfig ins = Some cc"
  shows "(\<forall>v. length (strings_Split v CHR '':'') = 2 \<longleftrightarrow> count_list v CHR '':'' = 1)
    \<and> ((\<forall>(k, v)\<in>set (Labels cc). strings_HasPrefix k ''share.'' \<longrightarrow> count_list v CHR '':'' = 1) \<longrightarrow>
         (\<forall>ms. snd (imageDefinedMounts env image' ms) =
                 Returns (ms @ map (\<lambda>(k, v). \<lparr>Type = ''bind'',
                                               Source = takeWhile (\<lambda>c. c \<noteq> CHR '':'') v,
                                               Target = tl (dropWhile (\<lambda>c. c \<noteq> CHR '':'') v)\<rparr>)
                                 (filter (\<lambda>(k, v). strings_HasPrefix k ''share.'') (Labels cc)),
                          None))
       \<and> (\<forall>(k, v)\<in>set (Labels cc). strings_HasPrefix k ''share.'' \<longrightarrow>
             strings_Split v CHR '':''
               = [takeWhile (\<lambda>c. c \<noteq> CHR '':'') v, tl (dropWhile (\<lambda>c. c \<noteq> CHR '':'') v)]
           \<and> v = takeWhile (\<lambda>c. c \<noteq> CHR '':'') v @ '':'' @ tl (dropWhile (\<lambda>c. c \<noteq> CHR '':'') v)))
    \<and> ((\<exists>(k, v)\<in>set (Labels cc). strings_HasPrefix k ''share.'' \<and> count_list v CHR '':'' \<noteq> 1) \<longrightarrow>
         (\<exists>(k, v)\<in>set (Labels cc). strings_HasPrefix k ''share.'' \<and> count_list v CHR '':'' \<noteq> 1
            \<and> (\<forall>ms. snd (imageDefinedMounts env image' ms) = Returns ([], Some (InvalidShare v)))
            \<and> (\<forall>r ms0 ms'. snd (mounts env r ms0 image') \<noteq> Returns (ms', None))
            \<and> (\<forall>r ms0 bin c.
                  os_MkdirAll env (filepath_Join [metaRoot env, cntName r, ''globalStorage'']) 488 = None
                  \<longrightarrow> loadCodeServer env = Inr bin \<longrightarrow> Config ins = Some c
                  \<longrightarrow> snd (mounts env r ms0 image') = Returns ([], Some (InvalidShare v))
                    \<and> snd (runContainer env r image')
                        = Returns (Some (FailedToAssembleMounts (InvalidShare v))))
            \<and> (\<forall>r cfg hc nc nm.
                  ContainerCreate cfg hc nc nm \<notin> set (fst (runContainer env r image')))))"
proof (intro conjI impI)
  show "\<forall>v. length (strings_Split v CHR '':'') = 2 \<longleftrightarrow> count_list v CHR '':'' = 1"
    by (simp add: strings_Split_length)
next
  assume ok: "\<forall>(k, v)\<in>set (Labels cc). strings_HasPrefix k ''share.'' \<longrightarrow> count_list v CHR '':'' = 1"
  show "\<forall>ms. snd (imageDefinedMounts env image' ms) =
                 Returns (ms @ map (\<lambda>(k, v). \<lparr>Type = ''bind'',
                                               Source = takeWhile (\<lambda>c. c \<noteq> CHR '':'') v,
                                               Target = tl (dropWhile (\<lambda>c. c \<noteq> CHR '':'') v)\<rparr>)
                                 (filter (\<lambda>(k, v). strings_HasPrefix k ''share.'') (Labels cc)),
                          None)"
    using imageDefinedMounts_inspected [OF assms] imageDefinedMounts_loop_ok [OF ok]
    by (simp add: TypeBind_def)
  show "\<forall>(k, v)\<in>set (Labels cc). strings_HasPrefix k ''share.'' \<longrightarrow>
             strings_Split v CHR '':''
               = [takeWhile (\<lambda>c. c \<noteq> CHR '':'') v, tl (dropWhile (\<lambda>c. c \<noteq> CHR '':'') v)]
           \<and> v = takeWhile (\<lambda>c. c \<noteq> CHR '':'') v @ '':'' @ tl (dropWhile (\<lambda>c. c \<noteq> CHR '':'') v)"
  proof (clarify)
    fix k v assume "(k, v) \<in> set (Labels cc)" "strings_HasPrefix k ''share.''"
    with ok have one: "count_list v CHR '':'' = 1" by auto
    show "strings_Split v CHR '':''
               = [takeWhile (\<lambda>c. c \<noteq> CHR '':'') v, tl (dropWhile (\<lambda>c. c \<noteq> CHR '':'') v)]
           \<and> v = takeWhile (\<lambda>c. c \<noteq> CHR '':'') v @ '':'' @ tl (dropWhile (\<lambda>c. c \<noteq> CHR '':'') v)"
      using strings_Split_one(1,2) [OF one] by simp
  qed
next
  assume "\<exists>(k, v)\<in>set (Labels cc). strings_HasPrefix k ''share.'' \<and> count_list v CHR '':'' \<noteq> 1"
  from imageDefinedMounts_loop_malformed [OF this] obtain pre k v post where
    ls: "Labels cc = pre @ (k, v) # post" and
    k: "strings_HasPrefix k ''share.''" and v: "count_list v CHR '':'' \<noteq> 1" and
    loop: "\<forall>ms. imageDefinedMounts_loop (Labels cc) ms = ([], Some (InvalidShare v))"
    by blast
  have mem: "(k, v) \<in> set (Labels cc)" by (simp add: ls)
  have 1: "\<forall>ms. snd (imageDefinedMounts env image' ms) = Returns ([], Some (InvalidShare v))"
    using imageDefinedMounts_inspected [OF assms] loop by simp
  have 2: "\<forall>r ms0 ms'. snd (mounts env r ms0 image') \<noteq> Returns (ms', None)"
    using mounts_share_error(1) [OF assms loop] by blast
  have 3: "\<forall>r ms0 bin c.
             os_MkdirAll env (filepath_Join [metaRoot env, cntName r, ''globalStorage'']) 488 = None
             \<longrightarrow> loadCodeServer env = Inr bin \<longrightarrow> Config ins = Some c
             \<longrightarrow> snd (mounts env r ms0 image') = Returns ([], Some (InvalidShare v))
               \<and> snd (runContainer env r image')
                   = Returns (Some (FailedToAssembleMounts (InvalidShare v)))"
  proof (intro allI impI)
    fix r :: runner and ms0 bin c
    assume a: "os_MkdirAll env (filepath_Join [metaRoot env, cntName r, ''globalStorage'']) 488 = None"
              "loadCodeServer env = Inr bin" "Config ins = Some c"
    have m: "snd (mounts env r ms0 image') = Returns ([], Some (InvalidShare v))" for ms0
      by (rule mounts_share_error(2) [OF assms loop a])
    show "snd (mounts env r ms0 image') = Returns ([], Some (InvalidShare v))
               \<and> snd (runContainer env r image')
                   = Returns (Some (FailedToAssembleMounts (InvalidShare v)))"
      using m runContainer_mounts_error [OF m [of "[]"]] by simp
  qed
  have 4: "\<forall>r cfg hc nc nm. ContainerCreate cfg hc nc nm \<notin> set (fst (runContainer env r image'))"
  proof (intro allI notI)
    fix r cfg hc nc nm
    assume "ContainerCreate cfg hc nc nm \<in> set (fst (runContainer env r image'))"
    from runContainer_create [OF this] obtain mnts where
      "snd (mounts env r [] image') = Returns (mnts, None)" by blast
    with 2 show False by blast
  qed
  show "\<exists>(k, v)\<in>set (Labels cc). strings_HasPrefix k ''share.'' \<and> count_list v CHR '':'' \<noteq> 1
            \<and> (\<forall>ms. snd (imageDefinedMounts env image' ms) = Returns ([], Some (InvalidShare v)))
            \<and> (\<forall>r ms0 ms'. snd (mounts env r ms0 image') \<noteq> Returns (ms', None))
            \<and> (\<forall>r ms0 bin c.
                  os_MkdirAll env (filepath_Join [metaRoot env, cntName r, ''globalStorage'']) 488 = None
                  \<longrightarrow> loadCodeServer env = Inr bin \<longrightarrow> Config ins = Some c
                  \<longrightarrow> snd (mounts env r ms0 image') = Returns ([], Some (InvalidShare v))
                    \<and> snd (runContainer env r image')
                        = Returns (Some (FailedToAssembleMounts (InvalidShare v))))
            \<and> (\<forall>r cfg hc nc nm.
                  ContainerCreate cfg hc nc nm \<notin> set (fst (runContainer env r image')))"
    using mem k v 1 2 3 4 by blast
qed

text \<open>
  C3. When the container can be inspected, its configuration has the
  project-name label and the local-dir label, and the IP lookup succeeds,
  \<^verbatim>\<open>runnerFromContainer\<close> returns the runner whose project name, local project directory,
  hostname and host user are the stored values, and no error. The IP comes from a live
  lookup by the container name: the calls are the inspection of the container and
  \<^verbatim>\<open>dockutil.ContainerIP\<close> of the container, neither of which receives the network, and the
  IP is the one that this lookup reports. The given network is stored in the network field
  and decides nothing else: for another network, the calls and the runner are the same but
  for that field. When the inspection fails it returns no runner and the error "failed to
  inspect" with the container name, after that one call; when the IP lookup fails it
  returns no runner and the error "failed to get container IP" with the container name.
  Whenever it returns, it returns either a runner or an error, never both and never
  neither.
\<close>

theorem runnerFromContainer_all_or_nothing:
  "(\<forall>cnt cfg pn pl addr.
       cli_ContainerInspect env name = Inr cnt \<longrightarrow> JSON_Config cnt = Some cfg \<longrightarrow>
       map_of (Labels cfg) (projectNameLabel env) = Some pn \<longrightarrow>
       map_of (Labels cfg) (projectLocalDirLabel env) = Some pl \<longrightarrow>
       dockutil_ContainerIP env name = Inr addr \<longrightarrow>
       runnerFromContainer env name net =
         ([ContainerInspect name, ContainerIP name],
          Returns (Some \<lparr>cntName = name, projectName = pn, hostname = Hostname cfg,
                          projectLocalDir = pl, hostUser = User cfg, network = net,
                          ip = addr, testCmd = []\<rparr>, None)))
   \<and> (\<forall>net' r. snd (runnerFromContainer env name net) = Returns (Some r, None) \<longrightarrow>
         runnerFromContainer env name net'
           = (fst (runnerFromContainer env name net),
              Returns (Some (r\<lparr>network := net'\<rparr>), None)))
   \<and> (\<forall>err. cli_ContainerInspect env name = Inl err \<longrightarrow>
         runnerFromContainer env name net
           = ([ContainerInspect name], Returns (None, Some (FailedToInspect name err))))
   \<and> (\<forall>cnt cfg err.
         cli_ContainerInspect env name = Inr cnt \<longrightarrow> JSON_Config cnt = Some cfg \<longrightarrow>
         dockutil_ContainerIP env name = Inl err \<longrightarrow>
         snd (runnerFromContainer env name net)
           = Returns (None, Some (FailedToGetContainerIP name err)))
   \<and> (\<forall>ro eo. snd (runnerFromContainer env name net) = Returns (ro, eo) \<longrightarrow>
         (ro = None) \<noteq> (eo = None))"
  by (auto simp: runnerFromContainer_def index_label_def Let_def split: sum.splits option.splits)

section \<open>The example environment, evaluated\<close>

lemma example_run:
  "runContainer (example_env example_labels [(''project_root'', ''/data'')]) example_runner ''img''
   = ([MkdirAll ''/home/u/.local/share/sail/proj/globalStorage'' 488,
       ImageInspectWithRaw ''img'', LoadCodeServer, ImageInspectWithRaw ''img'',
       ImageInspectWithRaw ''img'', ImageInspectWithRaw ''img'',
       ContainerCreate example_containerConfig example_hostConfig example_netConfig ''proj'',
       ContainerStart ''proj''],
      Returns None)"
  by code_simp

lemma example_run_test:
  "runContainer (example_env example_labels [(''project_root'', ''/data'')])
     (example_runner\<lparr>testCmd := ''make test''\<rparr>) ''img''
   = ([MkdirAll ''/home/u/.local/share/sail/proj/globalStorage'' 488,
       ImageInspectWithRaw ''img'', LoadCodeServer, ImageInspectWithRaw ''img'',
       ImageInspectWithRaw ''img'', ImageInspectWithRaw ''img'',
       ContainerCreate (example_containerConfig\<lparr>Cmd := [''bash'', ''-c'', ''make test; exit 1'']\<rparr>)
         example_hostConfig example_netConfig ''proj'',
       ContainerStart ''proj''],
      Returns None)"
  by code_simp

lemma example_run_start_fails:
  "runContainer
     ((example_env example_labels [(''project_root'', ''/data'')])
        \<lparr>cli_ContainerStart := \<lambda>name. Some (External ''context deadline exceeded'')\<rparr>)
     example_runner ''img''
   = ([MkdirAll ''/home/u/.local/share/sail/proj/globalStorage'' 488,
       ImageInspectWithRaw ''img'', LoadCodeServer, ImageInspectWithRaw ''img'',
       ImageInspectWithRaw ''img'', ImageInspectWithRaw ''img'',
       ContainerCreate example_containerConfig example_hostConfig example_netConfig ''proj'',
       ContainerStart ''proj''],
      Returns (Some (FailedToStartContainer (External ''context deadline exceeded''))))"
  by code_simp


lemma example_inspect:
  "cli_ImageInspectWithRaw (example_env cl l) ''img'' = Inr (example_image cl l)"
  by (simp add: example_env_def)

lemma example_ContainerConfig:
  "ContainerConfig (example_image cl l)
     = Some \<lparr>Hostname = [], Cmd = [], Image = [], Labels = cl, User = []\<rparr>"
  by (simp add: example_image_def)

lemma example_Config:
  "Config (example_image cl l)
     = Some \<lparr>Hostname = [], Cmd = [''bash''], Image = [], Labels = l, User = ''user''\<rparr>"
  by (simp add: example_image_def)

theorem projectDir_joins_root_and_name_witness:
  "snd (projectDir (example_env [] [(''project_root'', ''/data'')]) example_runner ''img'')
     = Returns (''/data/proj'', None)
   \<and> snd (projectDir (example_env [] []) example_runner ''img'')
     = Returns (''/home/user/proj'', None)"
proof
  have "map_of (Labels \<lparr>Hostname = [], Cmd = [''bash''], Image = [],
                         Labels = [(''project_root'', ''/data'')], User = ''user''\<rparr>) ''project_root''
          = Some ''/data''"
    by simp
  from projectDir_joins_root_and_name
         [OF example_inspect example_Config, THEN conjunct1, rule_format, OF this]
  have "snd (projectDir (example_env [] [(''project_root'', ''/data'')]) r ''img'')
          = Returns (filepath_Join [''/data'', projectName r], None)" for r .
  moreover have "filepath_Join [''/data'', projectName example_runner] = ''/data/proj''"
    by code_simp
  ultimately show "snd (projectDir (example_env [] [(''project_root'', ''/data'')]) example_runner ''img'')
                     = Returns (''/data/proj'', None)"
    by simp
next
  have "map_of (Labels \<lparr>Hostname = [], Cmd = [''bash''], Image = [],
                         Labels = [], User = ''user''\<rparr>) ''project_root'' = None"
    by simp
  from projectDir_joins_root_and_name
         [OF example_inspect example_Config, THEN conjunct2, rule_format, OF this]
  have "snd (projectDir (example_env [] []) r ''img'')
          = Returns (filepath_Join [guestHomeDir (example_env [] []), projectName r], None)" for r .
  moreover have "filepath_Join [guestHomeDir (example_env [] []), projectName example_runner]
                   = ''/home/user/proj''"
    by code_simp
  ultimately show "snd (projectDir (example_env [] []) example_runner ''img'')
                     = Returns (''/home/user/proj'', None)"
    by simp
qed

lemma example_projectDir:
  "snd (projectDir (example_env cl [(''project_root'', ''/data'')]) (example_runner\<lparr>testCmd := t\<rparr>) ''img'')
     = Returns (''/data/proj'', None)"
proof -
  have "filepath_Join [''/data'', ''proj''] = ''/data/proj''" by code_simp
  then show ?thesis
    by (simp add: projectDir_def example_env_def example_image_def example_runner_def)
qed

lemma example_create:
  "ContainerCreate example_containerConfig example_hostConfig example_netConfig ''proj''
     \<in> set (fst (runContainer (example_env example_labels [(''project_root'', ''/data'')])
                    example_runner ''img''))"
  by (simp add: example_run)

theorem runContainer_entry_command_witness:
  "ContainerCreate example_containerConfig example_hostConfig example_netConfig ''proj''
     \<in> set (fst (runContainer (example_env example_labels [(''project_root'', ''/data'')])
                    example_runner ''img''))
   \<and> Cmd example_containerConfig =
       [''bash'', ''-c'',
        ''cd /data/proj; code-server --data-dir ~/.config/Code --extensions-dir ~/.vscode/extensions --allow-http --no-auth 2>&1 | tee /tmp/code-server.log'']
   \<and> ContainerCreate (example_containerConfig\<lparr>Cmd := [''bash'', ''-c'', ''make test; exit 1'']\<rparr>)
         example_hostConfig example_netConfig ''proj''
     \<in> set (fst (runContainer (example_env example_labels [(''project_root'', ''/data'')])
                    (example_runner\<lparr>testCmd := ''make test''\<rparr>) ''img''))
   \<and> Cmd (example_containerConfig\<lparr>Cmd := [''bash'', ''-c'', ''make test; exit 1'']\<rparr>) =
       [''bash'', ''-c'', ''make test; exit 1'']"
proof -
  have log: "containerLogPath (example_env example_labels [(''project_root'', ''/data'')])
               = ''/tmp/code-server.log''"
    by (simp add: example_env_def)
  have t0: "testCmd example_runner = []" by (simp add: example_runner_def)
  have p0: "snd (projectDir (example_env example_labels [(''project_root'', ''/data'')]) example_runner ''img'')
              = Returns (''/data/proj'', None)"
    using example_projectDir [of example_labels "[]"] by (simp add: example_runner_def)
  have h2: "ContainerCreate (example_containerConfig\<lparr>Cmd := [''bash'', ''-c'', ''make test; exit 1'']\<rparr>)
              example_hostConfig example_netConfig ''proj''
            \<in> set (fst (runContainer (example_env example_labels [(''project_root'', ''/data'')])
                    (example_runner\<lparr>testCmd := ''make test''\<rparr>) ''img''))"
    by (simp add: example_run_test)
  from runContainer_entry_command [OF example_create]
  have c1: "Cmd example_containerConfig =
       [''bash'', ''-c'',
        ''cd /data/proj; code-server --data-dir ~/.config/Code --extensions-dir ~/.vscode/extensions --allow-http --no-auth 2>&1 | tee /tmp/code-server.log'']"
    by (simp add: p0 t0 log)
  from runContainer_entry_command [OF h2]
  have c2: "Cmd (example_containerConfig\<lparr>Cmd := [''bash'', ''-c'', ''make test; exit 1'']\<rparr>) =
       [''bash'', ''-c'', ''make test; exit 1'']"
    by simp
  show ?thesis using example_create h2 c1 c2 by blast
qed

lemma example_labels_distinct:
  "distinct (map fst (Labels \<lparr>Hostname = [], Cmd = [], Image = [], Labels = example_labels, User = []\<rparr>))"
  by (simp add: example_labels_def)

lemma example_sailLabel: "sailLabel (example_env cl l) = ''com.coder.sail''"
  by (simp add: example_env_def)

theorem runContainer_labels_witness:
  "ContainerCreate example_containerConfig example_hostConfig example_netConfig ''proj''
     \<in> set (fst (runContainer (example_env example_labels [(''project_root'', ''/data'')])
                    example_runner ''img''))
   \<and> distinct (map fst example_labels)
   \<and> map_of (Labels example_containerConfig) ''com.coder.sail'' = Some []
   \<and> map_of (Labels example_containerConfig) ''com.coder.sail.project_dir'' = Some ''/data/proj''
   \<and> map_of (Labels example_containerConfig) ''com.coder.sail.project_local_dir'' = Some ''/home/u/proj''
   \<and> map_of (Labels example_containerConfig) ''com.coder.sail.hat'' = Some ''golang''
   \<and> map_of (Labels example_containerConfig) ''share.work'' = None
   \<and> map_of (Labels example_containerConfig) ''maintainer'' = None"
proof -
  let ?env = "example_env example_labels [(''project_root'', ''/data'')]"
  note inst = runContainer_labels
                [OF example_create example_inspect example_ContainerConfig example_labels_distinct]
  have p0: "snd (projectDir ?env example_runner ''img'') = Returns (''/data/proj'', None)"
    using example_projectDir [of example_labels "[]"] by (simp add: example_runner_def)
  from inst p0 have
    b: "\<forall>(k, v)\<in>set example_labels.
          strings_HasPrefix k (sailLabel ?env) \<longrightarrow> map_of (Labels example_containerConfig) k = Some v" and
    c: "\<forall>k. \<not> strings_HasPrefix k (sailLabel ?env) \<longrightarrow> map_of (Labels example_containerConfig) k = None" and
    d: "\<forall>k. k \<notin> fst ` set example_labels \<longrightarrow>
          map_of (Labels example_containerConfig) k =
             map_of [(sailLabel ?env, []), (projectDirLabel ?env, ''/data/proj''),
                     (projectLocalDirLabel ?env, projectLocalDir example_runner),
                     (projectNameLabel ?env, projectName example_runner)] k"
    by auto
  have 1: "map_of (Labels example_containerConfig) ''com.coder.sail'' = Some []"
    using d [rule_format, of "''com.coder.sail''"]
    by (simp add: example_labels_def example_sailLabel)
  have 2: "map_of (Labels example_containerConfig) ''com.coder.sail.project_dir'' = Some ''/data/proj''"
    using d [rule_format, of "''com.coder.sail.project_dir''"]
    by (simp add: example_labels_def example_sailLabel projectDirLabel_def)
  have 3: "map_of (Labels example_containerConfig) ''com.coder.sail.project_local_dir'' = Some ''/home/u/proj''"
    using d [rule_format, of "''com.coder.sail.project_local_dir''"]
    by (simp add: example_labels_def example_sailLabel projectDirLabel_def projectLocalDirLabel_def
                  example_runner_def)
  have 4: "map_of (Labels example_containerConfig) ''com.coder.sail.hat'' = Some ''golang''"
    using b by (simp add: example_labels_def example_sailLabel strings_HasPrefix_def)
  have 5: "map_of (Labels example_containerConfig) ''share.work'' = None"
    using c [rule_format, of "''share.work''"]
    by (simp add: example_sailLabel strings_HasPrefix_def)
  have 6: "map_of (Labels example_containerConfig) ''maintainer'' = None"
    using c [rule_format, of "''maintainer''"]
    by (simp add: example_sailLabel strings_HasPrefix_def)
  have "distinct (map fst example_labels)" by (simp add: example_labels_def)
  then show ?thesis using example_create 1 2 3 4 5 6 by blast
qed

theorem image_label_overwrites_fixed_label_witness:
  "ContainerCreate example_containerConfig example_hostConfig example_netConfig ''proj''
     \<in> set (fst (runContainer (example_env example_labels [(''project_root'', ''/data'')])
                    example_runner ''img''))
   \<and> (''com.coder.sail.project_name'', ''other'') \<in> set example_labels
   \<and> projectNameLabel (example_env example_labels [(''project_root'', ''/data'')])
       = ''com.coder.sail.project_name''
   \<and> projectName example_runner = ''proj''
   \<and> map_of (Labels example_containerConfig) ''com.coder.sail.project_name'' = Some ''other''"
proof -
  let ?env = "example_env example_labels [(''project_root'', ''/data'')]"
  have mem: "(''com.coder.sail.project_name'', ''other'')
               \<in> set (Labels \<lparr>Hostname = [], Cmd = [], Image = [], Labels = example_labels, User = []\<rparr>)"
    by (simp add: example_labels_def)
  have key: "projectNameLabel ?env = ''com.coder.sail.project_name''"
    by (simp add: projectNameLabel_def example_sailLabel)
  then have fixed: "''com.coder.sail.project_name''
               \<in> {sailLabel ?env, projectDirLabel ?env, projectLocalDirLabel ?env, projectNameLabel ?env}"
    by simp
  note inst = image_label_overwrites_fixed_label
                [OF example_create example_inspect example_ContainerConfig example_labels_distinct
                    mem fixed]
  have "projectName example_runner = ''proj''" by (simp add: example_runner_def)
  then show ?thesis using example_create mem key inst by simp
qed

theorem runContainer_start_failure_no_rollback_witness:
  "(let env = (example_env example_labels [(''project_root'', ''/data'')])
                \<lparr>cli_ContainerStart := \<lambda>name. Some (External ''context deadline exceeded'')\<rparr>
    in ContainerCreate example_containerConfig example_hostConfig example_netConfig ''proj''
         \<in> set (fst (runContainer env example_runner ''img''))
     \<and> cli_ContainerCreate env example_containerConfig example_hostConfig example_netConfig ''proj''
         = None
     \<and> cli_ContainerStart env (cntName example_runner) = Some (External ''context deadline exceeded'')
     \<and> snd (runContainer env example_runner ''img'')
         = Returns (Some (FailedToStartContainer (External ''context deadline exceeded'')))
     \<and> (\<exists>pre. fst (runContainer env example_runner ''img'')
                  = pre @ [ContainerCreate example_containerConfig example_hostConfig
                             example_netConfig ''proj'',
                           ContainerStart ''proj'']))"
proof -
  let ?env = "(example_env example_labels [(''project_root'', ''/data'')])
                \<lparr>cli_ContainerStart := \<lambda>name. Some (External ''context deadline exceeded'')\<rparr>"
  have h1: "ContainerCreate example_containerConfig example_hostConfig example_netConfig ''proj''
              \<in> set (fst (runContainer ?env example_runner ''img''))"
    by (simp add: example_run_start_fails)
  have h2: "cli_ContainerCreate ?env example_containerConfig example_hostConfig example_netConfig ''proj''
              = None"
    by (simp add: example_env_def)
  have h3: "cli_ContainerStart ?env (cntName example_runner) = Some (External ''context deadline exceeded'')"
    by simp
  have nm: "cntName example_runner = ''proj''" by (simp add: example_runner_def)
  note inst = runContainer_start_failure_no_rollback [OF h1 h2 h3]
  from inst have "\<exists>pre. fst (runContainer ?env example_runner ''img'')
                  = pre @ [ContainerCreate example_containerConfig example_hostConfig
                             example_netConfig ''proj'',
                           ContainerStart ''proj'']"
    unfolding nm by blast
  then show ?thesis
    unfolding Let_def using h1 h2 h3 inst [THEN conjunct1] by blast
qed

theorem mounts_order_and_resolution_witness:
  "ContainerCreate example_containerConfig example_hostConfig example_netConfig ''proj''
     \<in> set (fst (runContainer (example_env example_labels [(''project_root'', ''/data'')])
                    example_runner ''img''))
   \<and> list_all2 (\<lambda>m m'. Type m' = Type m
                    \<and> filepath_Abs (example_env example_labels [(''project_root'', ''/data'')])
                        (resolvePath_example ''/home/u'' (Source m)) = (Source m', None)
                    \<and> Target m' = resolvePath_example ''/home/user'' (Target m))
       [\<lparr>Type = ''bind'', Source = ''~/.config/Code'', Target = ''~/.config/Code''\<rparr>,
        \<lparr>Type = ''bind'', Source = ''~/.vscode/extensions'', Target = ''~/.vscode/extensions''\<rparr>,
        \<lparr>Type = ''bind'', Source = ''/home/u/.local/share/sail/proj/globalStorage'',
          Target = ''~/.local/share/code-server/globalStorage/''\<rparr>,
        \<lparr>Type = ''bind'', Source = ''/home/u/proj'', Target = ''/data/proj''\<rparr>,
        \<lparr>Type = ''bind'', Source = ''/home/u/.cache/sail/code-server'',
          Target = ''/usr/bin/code-server''\<rparr>,
        \<lparr>Type = ''bind'', Source = ''~/work'', Target = ''/work''\<rparr>]
       (Mounts example_hostConfig)"
proof -
  let ?env = "example_env example_labels [(''project_root'', ''/data'')]"
  have p0: "snd (projectDir ?env example_runner ''img'') = Returns (''/data/proj'', None)"
    using example_projectDir [of example_labels "[]"] by (simp add: example_runner_def)
  have gs: "filepath_Join [metaRoot ?env, cntName example_runner, ''globalStorage'']
              = ''/home/u/.local/share/sail/proj/globalStorage''"
    by code_simp
  have sp: "strings_Split ''~/work:/work'' CHR '':'' = [''~/work'', ''/work'']"
    by code_simp
  have shares: "map (\<lambda>(k, v). \<lparr>Type = ''bind'', Source = strings_Split v CHR '':'' ! 0,
                            Target = strings_Split v CHR '':'' ! 1\<rparr>)
                 (filter (\<lambda>(k, v). strings_HasPrefix k ''share.'') example_labels)
                = [\<lparr>Type = ''bind'', Source = ''~/work'', Target = ''/work''\<rparr>]"
    by (simp add: example_labels_def strings_HasPrefix_def sp)
  from mounts_order_and_resolution [OF example_create] obtain pdir bin ins cc home where
    a: "snd (projectDir ?env example_runner ''img'') = Returns (pdir, None)" and
    b: "loadCodeServer ?env = Inr bin" and
    c: "cli_ImageInspectWithRaw ?env ''img'' = Inr ins" and
    d: "ContainerConfig ins = Some cc" and
    e: "os_UserHomeDir ?env = Inr home" and
    l: "list_all2 (\<lambda>m m'. Type m' = Type m
                     \<and> filepath_Abs ?env (resolvePath ?env home (Source m)) = (Source m', None)
                     \<and> Target m' = resolvePath ?env (guestHomeDir ?env) (Target m))
        ([\<lparr>Type = ''bind'', Source = ''~/.config/Code'', Target = ''~/.config/Code''\<rparr>,
          \<lparr>Type = ''bind'', Source = ''~/.vscode/extensions'', Target = ''~/.vscode/extensions''\<rparr>,
          \<lparr>Type = ''bind'', Source = filepath_Join [metaRoot ?env, cntName example_runner, ''globalStorage''],
            Target = ''~/.local/share/code-server/globalStorage/''\<rparr>,
          \<lparr>Type = ''bind'', Source = projectLocalDir example_runner, Target = pdir\<rparr>,
          \<lparr>Type = ''bind'', Source = bin, Target = ''/usr/bin/code-server''\<rparr>]
         @ map (\<lambda>(k, v). \<lparr>Type = ''bind'', Source = strings_Split v CHR '':'' ! 0,
                            Target = strings_Split v CHR '':'' ! 1\<rparr>)
               (filter (\<lambda>(k, v). strings_HasPrefix k ''share.'') (Labels cc)))
        (Mounts example_hostConfig)"
    by blast
  have pdir: "pdir = ''/data/proj''" using a p0 by simp
  have bin: "bin = ''/home/u/.cache/sail/code-server''" using b by (simp add: example_env_def)
  have cc: "Labels cc = example_labels"
    using c d example_inspect [of example_labels "[(''project_root'', ''/data'')]"]
          example_ContainerConfig [of example_labels "[(''project_root'', ''/data'')]"]
    by auto
  have home: "home = ''/home/u''" using e by (simp add: example_env_def)
  have rp: "resolvePath ?env = resolvePath_example" by (simp add: example_env_def)
  have gh: "guestHomeDir ?env = ''/home/user''" by (simp add: example_env_def)
  have lpd: "projectLocalDir example_runner = ''/home/u/proj''" by (simp add: example_runner_def)
  note l' = l [unfolded pdir bin cc home rp gh lpd gs shares]
  show ?thesis using example_create l' by simp
qed

lemma example_MkdirAll: "os_MkdirAll (example_env cl l) path perm = None"
  by (simp add: example_env_def)

lemma example_loadCodeServer:
  "loadCodeServer (example_env cl l) = Inr ''/home/u/.cache/sail/code-server''"
  by (simp add: example_env_def)

theorem share_label_needs_exactly_one_colon_witness:
  "snd (imageDefinedMounts
          (example_env [(''share.x'', ''/host/x:/guest/y''), (''maintainer'', ''a:b:c'')] []) ''img'' [])
     = Returns ([\<lparr>Type = ''bind'', Source = ''/host/x'', Target = ''/guest/y''\<rparr>], None)
   \<and> snd (imageDefinedMounts
            (example_env [(''share.x'', ''/host/x:/guest/y''), (''share.bad'', ''a:b:c'')] []) ''img'' [])
       = Returns ([], Some (InvalidShare ''a:b:c''))
   \<and> snd (runContainer
            (example_env [(''share.x'', ''/host/x:/guest/y''), (''share.bad'', ''a:b:c'')] [])
            example_runner ''img'')
       = Returns (Some (FailedToAssembleMounts (InvalidShare ''a:b:c'')))
   \<and> snd (imageDefinedMounts (example_env [(''share.bad'', ''noseparator'')] []) ''img'' [])
       = Returns ([], Some (InvalidShare ''noseparator''))"
proof -
  note inst = share_label_needs_exactly_one_colon [OF example_inspect example_ContainerConfig]
  let ?good = "[(''share.x'', ''/host/x:/guest/y''), (''maintainer'', ''a:b:c'')]"
  let ?bad = "[(''share.x'', ''/host/x:/guest/y''), (''share.bad'', ''a:b:c'')]"
  let ?nosep = "[(''share.bad'', ''noseparator'')]"
  have ok: "\<forall>(k, v)\<in>set (Labels \<lparr>Hostname = [], Cmd = [], Image = [], Labels = ?good, User = []\<rparr>).
              strings_HasPrefix k ''share.'' \<longrightarrow> count_list v CHR '':'' = 1"
    by (simp add: strings_HasPrefix_def)
  from inst [of ?good "[]", THEN conjunct2, THEN conjunct1, THEN mp, OF ok, THEN conjunct1, THEN spec, of "[]"]
  have 1: "snd (imageDefinedMounts (example_env ?good []) ''img'' [])
             = Returns ([\<lparr>Type = ''bind'', Source = ''/host/x'', Target = ''/guest/y''\<rparr>], None)"
    by (simp add: strings_HasPrefix_def)
  have bad: "\<exists>(k, v)\<in>set (Labels \<lparr>Hostname = [], Cmd = [], Image = [], Labels = ?bad, User = []\<rparr>).
               strings_HasPrefix k ''share.'' \<and> count_list v CHR '':'' \<noteq> 1"
    by (simp add: strings_HasPrefix_def)
  from inst [of ?bad "[]", THEN conjunct2, THEN conjunct2, THEN mp, OF bad]
  have 2: "snd (imageDefinedMounts (example_env ?bad []) ''img'' [])
             = Returns ([], Some (InvalidShare ''a:b:c''))"
   and 3: "snd (runContainer (example_env ?bad []) example_runner ''img'')
             = Returns (Some (FailedToAssembleMounts (InvalidShare ''a:b:c'')))"
    using example_MkdirAll [of ?bad "[]"] example_loadCodeServer [of ?bad "[]"]
          example_Config [of ?bad "[]"]
    by (auto simp: strings_HasPrefix_def)
  have nosep: "\<exists>(k, v)\<in>set (Labels \<lparr>Hostname = [], Cmd = [], Image = [], Labels = ?nosep, User = []\<rparr>).
               strings_HasPrefix k ''share.'' \<and> count_list v CHR '':'' \<noteq> 1"
    by (simp add: strings_HasPrefix_def)
  from inst [of ?nosep "[]", THEN conjunct2, THEN conjunct2, THEN mp, OF nosep]
  have 4: "snd (imageDefinedMounts (example_env ?nosep []) ''img'' [])
             = Returns ([], Some (InvalidShare ''noseparator''))"
    by (auto simp: strings_HasPrefix_def)
  show ?thesis using 1 2 3 4 by blast
qed

text \<open>
  The IP does not come from a lookup on the given network: on one and the same engine,
  recovery of the container \<^verbatim>\<open>proj\<close> for the network
  \<^verbatim>\<open>sail\<close> and for the network \<^verbatim>\<open>bridge\<close> makes the same two calls, which name the
  container only, and returns the same IP.
\<close>

theorem runnerFromContainer_ip_ignores_given_network:
  "runnerFromContainer (example_env [] []) ''proj'' ''sail''
     = ([ContainerInspect ''proj'', ContainerIP ''proj''],
        Returns (Some \<lparr>cntName = ''proj'', projectName = ''P'', hostname = ''proj'',
                        projectLocalDir = ''/home/u/P'', hostUser = ''1000:user'',
                        network = ''sail'', ip = ''172.18.0.2'', testCmd = []\<rparr>, None))
   \<and> runnerFromContainer (example_env [] []) ''proj'' ''bridge''
     = ([ContainerInspect ''proj'', ContainerIP ''proj''],
        Returns (Some \<lparr>cntName = ''proj'', projectName = ''P'', hostname = ''proj'',
                        projectLocalDir = ''/home/u/P'', hostUser = ''1000:user'',
                        network = ''bridge'', ip = ''172.18.0.2'', testCmd = []\<rparr>, None))"
  by code_simp

theorem runnerFromContainer_all_or_nothing_witness:
  "runnerFromContainer (example_env [] []) ''proj'' ''sail''
     = ([ContainerInspect ''proj'', ContainerIP ''proj''],
        Returns (Some \<lparr>cntName = ''proj'', projectName = ''P'', hostname = ''proj'',
                        projectLocalDir = ''/home/u/P'', hostUser = ''1000:user'',
                        network = ''sail'', ip = ''172.18.0.2'', testCmd = []\<rparr>, None))
   \<and> runnerFromContainer (example_env [] []) ''proj'' ''bridge''
     = ([ContainerInspect ''proj'', ContainerIP ''proj''],
        Returns (Some \<lparr>cntName = ''proj'', projectName = ''P'', hostname = ''proj'',
                        projectLocalDir = ''/home/u/P'', hostUser = ''1000:user'',
                        network = ''bridge'', ip = ''172.18.0.2'', testCmd = []\<rparr>, None))
   \<and> runnerFromContainer
        ((example_env [] [])\<lparr>cli_ContainerInspect := \<lambda>name. Inl (External ''No such container'')\<rparr>)
        ''proj'' ''sail''
       = ([ContainerInspect ''proj''],
          Returns (None, Some (FailedToInspect ''proj'' (External ''No such container''))))
   \<and> snd (runnerFromContainer
            ((example_env [] [])\<lparr>dockutil_ContainerIP := \<lambda>name. Inl (External ''no address'')\<rparr>)
            ''proj'' ''sail'')
       = Returns (None, Some (FailedToGetContainerIP ''proj'' (External ''no address'')))"
proof -
  let ?cfg = "\<lparr>Hostname = ''proj'', Cmd = [''bash'', ''-c'', ''true''], Image = ''img'',
               Labels = [(''com.coder.sail'', []),
                         (''com.coder.sail.project_dir'', ''/home/user/proj''),
                         (''com.coder.sail.project_local_dir'', ''/home/u/P''),
                         (''com.coder.sail.project_name'', ''P'')],
               User = ''1000:user''\<rparr>"
  let ?env = "example_env [] []"
  let ?r = "\<lparr>cntName = ''proj'', projectName = ''P'', hostname = ''proj'',
              projectLocalDir = ''/home/u/P'', hostUser = ''1000:user'',
              network = ''sail'', ip = ''172.18.0.2'', testCmd = []\<rparr>"
  have i: "cli_ContainerInspect ?env ''proj'' = Inr \<lparr>JSON_Config = Some ?cfg\<rparr>"
    by (simp add: example_env_def)
  have j: "JSON_Config \<lparr>JSON_Config = Some ?cfg\<rparr> = Some ?cfg" by simp
  have pn: "map_of (Labels ?cfg) (projectNameLabel ?env) = Some ''P''"
    by (simp add: projectNameLabel_def example_sailLabel)
  have pl: "map_of (Labels ?cfg) (projectLocalDirLabel ?env) = Some ''/home/u/P''"
    by (simp add: projectLocalDirLabel_def example_sailLabel)
  have a: "dockutil_ContainerIP ?env ''proj'' = Inr ''172.18.0.2''"
    by (simp add: example_env_def)
  from runnerFromContainer_all_or_nothing
         [of ?env "''proj''" "''sail''", THEN conjunct1, rule_format, OF i j pn pl a]
  have 1: "runnerFromContainer ?env ''proj'' ''sail''
             = ([ContainerInspect ''proj'', ContainerIP ''proj''], Returns (Some ?r, None))"
    by simp
  then have s1: "snd (runnerFromContainer ?env ''proj'' ''sail'') = Returns (Some ?r, None)"
    by simp
  from runnerFromContainer_all_or_nothing
         [of ?env "''proj''" "''sail''", THEN conjunct2, THEN conjunct1, rule_format, OF s1,
          of "''bridge''"]
  have other: "runnerFromContainer ?env ''proj'' ''bridge''
             = ([ContainerInspect ''proj'', ContainerIP ''proj''],
                Returns (Some (?r\<lparr>network := ''bridge''\<rparr>), None))"
    by (simp add: 1)
  let ?env2 = "?env\<lparr>cli_ContainerInspect := \<lambda>name. Inl (External ''No such container'')\<rparr>"
  have i2: "cli_ContainerInspect ?env2 ''proj'' = Inl (External ''No such container'')" by simp
  note 2 = runnerFromContainer_all_or_nothing
             [of ?env2 "''proj''" "''sail''", THEN conjunct2, THEN conjunct2, THEN conjunct1,
              rule_format, OF i2]
  let ?env3 = "?env\<lparr>dockutil_ContainerIP := \<lambda>name. Inl (External ''no address'')\<rparr>"
  have i3: "cli_ContainerInspect ?env3 ''proj'' = Inr \<lparr>JSON_Config = Some ?cfg\<rparr>"
    by (simp add: example_env_def)
  have a3: "dockutil_ContainerIP ?env3 ''proj'' = Inl (External ''no address'')" by simp
  note 3 = runnerFromContainer_all_or_nothing
             [of ?env3 "''proj''" "''sail''", THEN conjunct2, THEN conjunct2, THEN conjunct2,
              THEN conjunct1, rule_format, OF i3 j a3]
  show ?thesis using 1 other 2 3 by simp
qed

text \<open>
  C1. \<^verbatim>\<open>mounts\<close> does not call \<^verbatim>\<open>stripDuplicateMounts\<close>. For an image with the label
  \<^verbatim>\<open>share.bin = /tmp/tool:/usr/bin/code-server\<close>, the mount list that \<^verbatim>\<open>runContainer\<close>
  sends to the engine has two mounts with the target \<^verbatim>\<open>/usr/bin/code-server\<close>: the
  code-server binary and, after it, the image's share.
\<close>

theorem runContainer_hands_over_duplicate_targets:
  "runContainer (example_env [(''share.bin'', ''/tmp/tool:/usr/bin/code-server'')] [])
     example_runner ''img''
   = ([MkdirAll ''/home/u/.local/share/sail/proj/globalStorage'' 488,
       ImageInspectWithRaw ''img'', LoadCodeServer, ImageInspectWithRaw ''img'',
       ImageInspectWithRaw ''img'', ImageInspectWithRaw ''img'',
       ContainerCreate
         \<lparr>Hostname = ''proj'',
          Cmd = [''bash'', ''-c'',
                 ''cd /home/user/proj; code-server --data-dir ~/.config/Code --extensions-dir ~/.vscode/extensions --allow-http --no-auth 2>&1 | tee /tmp/code-server.log''],
          Image = ''img'',
          Labels = [(''com.coder.sail'', []),
                    (''com.coder.sail.project_dir'', ''/home/user/proj''),
                    (''com.coder.sail.project_local_dir'', ''/home/u/proj''),
                    (''com.coder.sail.project_name'', ''proj'')],
          User = ''1000:user''\<rparr>
         \<lparr>Mounts =
            [\<lparr>Type = ''bind'', Source = ''/home/u/.config/Code'', Target = ''/home/user/.config/Code''\<rparr>,
             \<lparr>Type = ''bind'', Source = ''/home/u/.vscode/extensions'',
               Target = ''/home/user/.vscode/extensions''\<rparr>,
             \<lparr>Type = ''bind'', Source = ''/home/u/.local/share/sail/proj/globalStorage'',
               Target = ''/home/user/.local/share/code-server/globalStorage/''\<rparr>,
             \<lparr>Type = ''bind'', Source = ''/home/u/proj'', Target = ''/home/user/proj''\<rparr>,
             \<lparr>Type = ''bind'', Source = ''/home/u/.cache/sail/code-server'',
               Target = ''/usr/bin/code-server''\<rparr>,
             \<lparr>Type = ''bind'', Source = ''/tmp/tool'', Target = ''/usr/bin/code-server''\<rparr>],
          Privileged = True\<rparr>
         example_netConfig ''proj'',
       ContainerStart ''proj''],
      Returns None)"
  by code_simp

end
